theory Spec2Isabelle
  imports Main "HOL-Library.Word"
begin

section \<open>play\_mod.c: an SDL2 module player with a visualizer\<close>

text \<open>
  The program is glue over two libraries (SDL2 with SDL\_ttf, and libxmp).  The
  embedding keeps the program's own control flow and data and treats every library
  call as an opaque action: a call is recorded, in order, in a list of calls, and
  what the library answers (a return code, a handle, the module information, the
  events it delivers) is an input of the model.  What a library does inside a call is
  not modelled: a call with a context that was released before (as after a failed
  reload, lines 238 and 364--366) is recorded like any other call.

  C \<open>int\<close> values are modelled by \<open>int\<close>.  Every arithmetic expression of the
  program works on small quantities (a volume times 110, a channel count times 2),
  so no wrap-around is involved; the division of C, which truncates towards zero
  and is undefined for a zero divisor, is written out.
\<close>

subsection \<open>C operators\<close>

text \<open>Logical negation \<^verbatim>\<open>!x\<close>: 1 when \<open>x\<close> is 0, else 0.\<close>

definition c_not :: "int \<Rightarrow> int" where
  "c_not x = (if x = 0 then 1 else 0)"

datatype error = DivisionByZero | IndexOutOfBounds

text \<open>Integer division \<^verbatim>\<open>a / b\<close>: the quotient with the fractional part discarded.\<close>

definition c_div :: "int \<Rightarrow> int \<Rightarrow> error + int" where
  "c_div a b =
     (if b = 0 then Inl DivisionByZero
      else if (a < 0) = (b < 0) then Inr (\<bar>a\<bar> div \<bar>b\<bar>)
      else Inr (- (\<bar>a\<bar> div \<bar>b\<bar>)))"

subsection \<open>The note-name table (lines 292--307)\<close>

definition note_names :: "string list" where
  "note_names =
    [''---'', ''C-0'', ''C#0'', ''D-0'', ''D#0'', ''E-0'', ''F-0'', ''F#0'', ''G-0'', ''G#0'', ''A-0'', ''A#0'', ''B-0'',
     ''C-1'', ''C#1'', ''D-1'', ''D#1'', ''E-1'', ''F-1'', ''F#1'', ''G-1'', ''G#1'', ''A-1'', ''A#1'', ''B-1'',
     ''C-2'', ''C#2'', ''D-2'', ''D#2'', ''E-2'', ''F-2'', ''F#2'', ''G-2'', ''G#2'', ''A-2'', ''A#2'', ''B-2'',
     ''C-3'', ''C#3'', ''D-3'', ''D#3'', ''E-3'', ''F-3'', ''F#3'', ''G-3'', ''G#3'', ''A-3'', ''A#3'', ''B-3'',
     ''C-4'', ''C#4'', ''D-4'', ''D#4'', ''E-4'', ''F-4'', ''F#4'', ''G-4'', ''G#4'', ''A-4'', ''A#4'', ''B-4'',
     ''C-5'', ''C#5'', ''D-5'', ''D#5'', ''E-5'', ''F-5'', ''F#5'', ''G-5'', ''G#5'', ''A-5'', ''A#5'', ''B-5'',
     ''C-6'', ''C#6'', ''D-6'', ''D#6'', ''E-6'', ''F-6'', ''F#6'', ''G-6'', ''G#6'', ''A-6'', ''A#6'', ''B-6'',
     ''C-7'', ''C#7'', ''D-7'', ''D#7'', ''E-7'', ''F-7'', ''F#7'', ''G-7'', ''G#7'', ''A-7'', ''A#7'', ''B-7'',
     ''C-8'']"

text \<open>
  Reading \<^verbatim>\<open>note_names[i]\<close>.  An index outside the table is an error of the model,
  so that a read out of bounds cannot pass unseen.
\<close>

definition note_names_at :: "int \<Rightarrow> error + string" where
  "note_names_at i =
     (if 0 \<le> i \<and> i < int (length note_names) then Inr (note_names ! nat i)
      else Inl IndexOutOfBounds)"

text \<open>
  Line 307: \<^verbatim>\<open>(note > 0 && note < (int)(sizeof(note_names)/sizeof(note_names[0]))) ? note_names[note] : "---"\<close>.
\<close>

definition note_str :: "int \<Rightarrow> error + string" where
  "note_str note =
     (if note > 0 \<and> note < int (length note_names) then note_names_at note
      else Inr ''---'')"

text \<open>Line 303: \<^verbatim>\<open>max_channels = mi.mod->chn < 8 ? mi.mod->chn : 8\<close>.\<close>

definition info_max_channels :: "int \<Rightarrow> int" where
  "info_max_channels chn = (if chn < 8 then chn else 8)"

text \<open>The values of \<open>ch\<close> a loop \<^verbatim>\<open>for (int ch = 0; ch < n; ++ch)\<close> runs through.\<close>

definition channels_upto :: "int \<Rightarrow> int list" where
  "channels_upto n = map int [0 ..< nat n]"

subsection \<open>The geometry of the visualizer (lines 315--330)\<close>

definition visualizer_width :: int where
  "visualizer_width = 480 - 60"

definition base_x :: int where
  "base_x = 30"

definition base_y :: int where
  "base_y = 10"

definition bar_max_height :: int where
  "bar_max_height = 110"

definition spacing :: int where
  "spacing = 2"

text \<open>
  Lines 319--320: the width of a bar, at least 2.  The division comes first and is
  not guarded.
\<close>

definition bar_width :: "int \<Rightarrow> error + int" where
  "bar_width max_channels =
     (case c_div (visualizer_width - (max_channels - 1) * spacing) max_channels of
        Inl e \<Rightarrow> Inl e
      | Inr w \<Rightarrow> Inr (if w < 2 then 2 else w))"

text \<open>Line 324: \<^verbatim>\<open>bar_height = (vol * bar_max_height) / 64\<close>; the divisor is the constant 64.\<close>

definition bar_height :: "int \<Rightarrow> int" where
  "bar_height vol = (case c_div (vol * bar_max_height) 64 of Inr h \<Rightarrow> h | Inl _ \<Rightarrow> 0)"

text \<open>An \<^verbatim>\<open>SDL_Rect {x, y, w, h}\<close>.\<close>

record SDL_Rect =
  rect_x :: int
  rect_y :: int
  rect_w :: int
  rect_h :: int

text \<open>Lines 325--330: the rectangle of channel \<open>ch\<close>, for a bar width \<open>bw\<close> and a volume.\<close>

definition bar_rect :: "int \<Rightarrow> int \<Rightarrow> int \<Rightarrow> SDL_Rect" where
  "bar_rect bw ch vol =
     \<lparr> rect_x = base_x + ch * (bw + spacing),
       rect_y = base_y + (bar_max_height - bar_height vol),
       rect_w = bw,
       rect_h = bar_height vol \<rparr>"

subsection \<open>printf conversions and the text buffer\<close>

definition digit_char :: "nat \<Rightarrow> char" where
  "digit_char d = ''0123456789'' ! d"

fun dec_nat :: "nat \<Rightarrow> string" where
  "dec_nat n = (if n < 10 then [digit_char n] else dec_nat (n div 10) @ [digit_char (n mod 10)])"

declare dec_nat.simps [simp del]

text \<open>The conversion \<^verbatim>\<open>%d\<close>.\<close>

definition fmt_d :: "int \<Rightarrow> string" where
  "fmt_d i = (if i < 0 then ''-'' @ dec_nat (nat (- i)) else dec_nat (nat i))"

text \<open>The conversion \<^verbatim>\<open>%02d\<close>: at least two characters, zeros after the sign.\<close>

definition fmt_02d :: "int \<Rightarrow> string" where
  "fmt_02d i =
     (if i < 0 then ''-'' @ dec_nat (nat (- i))
      else replicate (2 - length (dec_nat (nat i))) (CHR ''0'') @ dec_nat (nat i))"

text \<open>
  \<^verbatim>\<open>snprintf(info, sizeof(info), ...)\<close> with \<^verbatim>\<open>char info[256]\<close>: at most 255 characters
  of the formatted text are kept.
\<close>

definition snprintf_info :: "string \<Rightarrow> string" where
  "snprintf_info s = take 255 s"

definition newline :: string where
  "newline = [CHR 0x0A]"

subsection \<open>Data of the two libraries, as the program uses it\<close>

text \<open>A pointer to a library object; \<open>None\<close> is \<^verbatim>\<open>NULL\<close>.\<close>

type_synonym handle = nat
type_synonym xmp_context = "handle option"

text \<open>The fields of \<^verbatim>\<open>mi.mod\<close> that the program reads.\<close>

record xmp_module =
  mod_name :: string
  mod_type :: string
  mod_chn :: int
  mod_pat :: int
  mod_ins :: int
  mod_len :: int

record xmp_channel_info =
  ci_note :: int
  ci_instrument :: int
  ci_volume :: int

text \<open>
  \<^verbatim>\<open>struct xmp_frame_info\<close>: the array \<^verbatim>\<open>channel_info\<close> is a map from the index to the
  entry.  Its extent is fixed in the library's header, which also bounds the channel
  count of a module; an index past that extent is not modelled.
\<close>

record xmp_frame_info =
  fi_loop_count :: int
  fi_pattern :: int
  fi_channel_info :: "nat \<Rightarrow> xmp_channel_info"

datatype SDL_Color = SDL_Color int int int int

datatype keycode = SDLK_SPACE | SDLK_ESCAPE | SDLK_v | SDLK_other

text \<open>An \<^verbatim>\<open>SDL_Event\<close>, by its type; a key press carries its key, a drop its file name.\<close>

datatype event = SDL_QUIT | SDL_KEYDOWN keycode | SDL_DROPFILE string | SDL_other_event

text \<open>
  The calls the program makes into the libraries, with the arguments that vary.
  \<open>SDL_FillRect\<close> carries the rectangle (\<open>None\<close> for \<^verbatim>\<open>NULL\<close>, the whole surface) and
  the three components given to \<^verbatim>\<open>SDL_MapRGB\<close>; \<open>Render_text\<close> is the program's helper
  \<^verbatim>\<open>render_text(screen, font, x, y, text, color)\<close> of lines 26--33, which renders the
  text and blits it at \<open>(x, y)\<close> when the font library returns a surface.
\<close>

datatype lib_call =
    SDL_Init | TTF_Init | TTF_OpenFont string int | SDL_CreateWindow
  | SDL_CreateRenderer | SDL_GetWindowSurface | SDL_EventState
  | SDL_WaitEvent | SDL_PollEvent | SDL_free string
  | SDL_FillRect "SDL_Rect option" int int int
  | Render_text int int string SDL_Color
  | SDL_UpdateWindowSurface | SDL_Delay int
  | Xmp_create_context | Xmp_load_module xmp_context string
  | Xmp_get_module_info xmp_context | Xmp_get_frame_info xmp_context
  | SDL_OpenAudio xmp_context | Xmp_start_player xmp_context int int
  | SDL_PauseAudio int | Xmp_end_player xmp_context
  | Xmp_release_module xmp_context | Xmp_free_context xmp_context
  | SDL_CloseAudio | Xmp_play_buffer xmp_context int int
  | SDL_FreeSurface | TTF_CloseFont | TTF_Quit
  | SDL_DestroyRenderer | SDL_DestroyWindow | SDL_Quit

subsection \<open>The audio callback (lines 10--23)\<close>

text \<open>The two file-scope variables, the only variables \<^verbatim>\<open>fill_audio\<close> can see.\<close>

record globals =
  paused :: int
  stopped :: int

text \<open>The bytes \<^verbatim>\<open>stream[0], stream[1], ...\<close> behind the pointer \<^verbatim>\<open>stream\<close>.\<close>

type_synonym memory = "nat \<Rightarrow> 8 word"

text \<open>
  The conversion of the \<^verbatim>\<open>int\<close> argument \<^verbatim>\<open>len\<close> to the \<^verbatim>\<open>size_t\<close> of \<^verbatim>\<open>memset\<close>, for a
  64-bit \<^verbatim>\<open>size_t\<close>: a length that is not negative is kept.
\<close>

definition size_t_of_int :: "int \<Rightarrow> nat" where
  "size_t_of_int n = (if n < 0 then nat (n + 2 ^ 64) else nat n)"

definition memset :: "memory \<Rightarrow> 8 word \<Rightarrow> nat \<Rightarrow> memory" where
  "memset m c n = (\<lambda>i. if i < n then c else m i)"

text \<open>
  \<^verbatim>\<open>fill_audio(udata, stream, len)\<close>.  The decoder \<^verbatim>\<open>xmp_play_buffer\<close> is a parameter:
  it maps the context, the buffer, the size and the loop argument to the buffer it
  leaves.  The result is the buffer and the decoder calls made.
\<close>

definition fill_audio ::
  "(xmp_context \<Rightarrow> memory \<Rightarrow> int \<Rightarrow> int \<Rightarrow> memory) \<Rightarrow> 'a globals_scheme \<Rightarrow>
     xmp_context \<Rightarrow> memory \<Rightarrow> int \<Rightarrow> memory \<times> lib_call list" where
  "fill_audio xmp_play_buffer g udata stream len =
     (if stopped g \<noteq> 0 then (memset stream 0 (size_t_of_int len), [])
      else if paused g = 0
        then (xmp_play_buffer udata stream len 0, [Xmp_play_buffer udata len 0])
        else (memset stream 0 (size_t_of_int len), []))"

subsection \<open>The state of \<^verbatim>\<open>main\<close>\<close>

text \<open>
  The variables of \<^verbatim>\<open>main\<close> that live across the frames of the main loop, on top of
  the two globals: the file path, the decoder context, the module information, the
  \<^verbatim>\<open>userdata\<close> field of the audio specification, the frame information, the loop flag
  \<^verbatim>\<open>done\<close>, \<^verbatim>\<open>last_pattern\<close>, the four colours and \<^verbatim>\<open>show_visualizer\<close>.  The last two
  fields are the world outside: the library calls made so far and the lines written
  to the standard error stream.
\<close>

record main_state = globals +
  modfile :: string
  ctx :: xmp_context
  mi :: xmp_module
  spec_userdata :: xmp_context
  fi :: xmp_frame_info
  done_flag :: int
  last_pattern :: int
  white :: SDL_Color
  blue :: SDL_Color
  yellow :: SDL_Color
  red :: SDL_Color
  show_visualizer :: int
  calls :: "lib_call list"
  stderr :: "string list"

text \<open>
  What the libraries answer while one module is loaded and started: the result of
  \<^verbatim>\<open>xmp_create_context\<close>, the return codes of \<^verbatim>\<open>xmp_load_module\<close>, \<^verbatim>\<open>SDL_OpenAudio\<close> and
  \<^verbatim>\<open>xmp_start_player\<close>, what \<^verbatim>\<open>xmp_get_module_info\<close> stores, and the text of
  \<^verbatim>\<open>SDL_GetError()\<close>.
\<close>

record lib_outcome =
  new_ctx :: xmp_context
  load_rc :: int
  new_mi :: xmp_module
  open_rc :: int
  start_rc :: int
  audio_error :: string

text \<open>
  \<^verbatim>\<open>strncpy(modfile, src, sizeof(modfile)-1)\<close> into \<^verbatim>\<open>char modfile[1024]\<close>, whose last
  byte stays 0: the string left in \<^verbatim>\<open>modfile\<close> is the first 1023 characters of \<open>src\<close>.
\<close>

definition strncpy_modfile :: "string \<Rightarrow> string" where
  "strncpy_modfile src = take 1023 src"

subsection \<open>Event handling in the main loop (lines 176--237)\<close>

text \<open>Lines 192--196.\<close>

definition teardown :: "xmp_context \<Rightarrow> lib_call list" where
  "teardown c =
     [SDL_PauseAudio 1, Xmp_end_player c, Xmp_release_module c, Xmp_free_context c,
      SDL_CloseAudio]"

text \<open>
  A failed step of a reload: the message is printed, the calls that release what
  this reload acquired are made, \<^verbatim>\<open>done\<close> is set and the polling loop is left.
\<close>

definition fail :: "string \<Rightarrow> lib_call list \<Rightarrow> main_state \<Rightarrow> main_state \<times> bool" where
  "fail msg cleanup s =
     (s\<lparr>stderr := stderr s @ [msg], calls := calls s @ cleanup, done_flag := 1\<rparr>, True)"

text \<open>
  Lines 189--236, the branch of \<^verbatim>\<open>SDL_DROPFILE\<close>.  The second component of the result
  tells whether the branch left the polling loop by \<^verbatim>\<open>break\<close>.
\<close>

definition drop_file :: "lib_outcome \<Rightarrow> string \<Rightarrow> main_state \<Rightarrow> main_state \<times> bool" where
  "drop_file oc file s =
     (let s1 = s\<lparr>stopped := 1, calls := calls s @ teardown (ctx s)\<rparr>;
          s2 = s1\<lparr>modfile := strncpy_modfile file, calls := calls s1 @ [SDL_free file]\<rparr>;
          s3 = s2\<lparr>ctx := new_ctx oc, calls := calls s2 @ [Xmp_create_context]\<rparr>
      in if ctx s3 = None
         then fail (''Failed to create xmp context'' @ newline) [] s3
         else
           let s4 = s3\<lparr>calls := calls s3 @ [Xmp_load_module (ctx s3) (modfile s3)]\<rparr>
           in if load_rc oc < 0
              then fail (''Failed to load module: '' @ modfile s4 @ newline)
                     [Xmp_free_context (ctx s4)] s4
              else
                let s5 = s4\<lparr>mi := new_mi oc, spec_userdata := ctx s4,
                             calls := calls s4 @ [Xmp_get_module_info (ctx s4)]\<rparr>;
                    s6 = s5\<lparr>calls := calls s5 @ [SDL_OpenAudio (spec_userdata s5)]\<rparr>
                in if open_rc oc < 0
                   then fail (''SDL_OpenAudio: '' @ audio_error oc @ newline)
                          [Xmp_release_module (ctx s6), Xmp_free_context (ctx s6)] s6
                   else
                     let s7 = s6\<lparr>calls := calls s6 @ [Xmp_start_player (ctx s6) 44100 0]\<rparr>
                     in if start_rc oc < 0
                        then fail (''xmp_start_player failed'' @ newline)
                               [SDL_CloseAudio, Xmp_release_module (ctx s7),
                                Xmp_free_context (ctx s7)] s7
                        else (s7\<lparr>paused := 0, stopped := 0,
                                  calls := calls s7 @ [SDL_PauseAudio 0]\<rparr>, False))"

text \<open>The four steps of a load that can fail all succeed.\<close>

definition drop_succeeds :: "lib_outcome \<Rightarrow> bool" where
  "drop_succeeds oc \<longleftrightarrow> new_ctx oc \<noteq> None \<and> 0 \<le> load_rc oc \<and> 0 \<le> open_rc oc \<and> 0 \<le> start_rc oc"

text \<open>
  Lines 177--236: one event, as the body of the polling loop handles it.  The outcome
  \<open>oc\<close> is what the libraries answer during this event; only a file drop asks them.
\<close>

fun handle_event :: "lib_outcome \<Rightarrow> event \<Rightarrow> main_state \<Rightarrow> main_state \<times> bool" where
  "handle_event oc SDL_QUIT s = (s\<lparr>done_flag := 1, stopped := 1\<rparr>, False)"
| "handle_event oc (SDL_KEYDOWN SDLK_SPACE) s = (s\<lparr>paused := c_not (paused s)\<rparr>, False)"
| "handle_event oc (SDL_KEYDOWN SDLK_ESCAPE) s = (s\<lparr>stopped := 1, done_flag := 1\<rparr>, False)"
| "handle_event oc (SDL_KEYDOWN SDLK_v) s =
     (s\<lparr>show_visualizer := c_not (show_visualizer s)\<rparr>, False)"
| "handle_event oc (SDL_KEYDOWN SDLK_other) s = (s, False)"
| "handle_event oc (SDL_DROPFILE file) s = drop_file oc file s"
| "handle_event oc SDL_other_event s = (s, False)"

text \<open>
  Line 176: \<^verbatim>\<open>while (SDL_PollEvent(&event))\<close>, over the events the queue delivers during
  this frame, each with the outcome of the library calls its handling makes.
\<close>

fun poll_events :: "(event \<times> lib_outcome) list \<Rightarrow> main_state \<Rightarrow> main_state" where
  "poll_events [] s = s\<lparr>calls := calls s @ [SDL_PollEvent]\<rparr>"
| "poll_events ((ev, oc) # rest) s =
     (case handle_event oc ev (s\<lparr>calls := calls s @ [SDL_PollEvent]\<rparr>) of
        (s', brk) \<Rightarrow> if brk then s' else poll_events rest s')"

subsection \<open>Drawing a frame (lines 243--360)\<close>

text \<open>The two control lines and the pattern and status display, drawn by both branches.\<close>

definition controls :: "main_state \<Rightarrow> lib_call list" where
  "controls s =
     [Render_text 10 140 ''SPACE: Play/Pause'' (white s),
      Render_text 10 155 ''ESC: Stop and exit   V: Visualizer'' (white s),
      Render_text 300 140 ''Playing pattern:'' (white s),
      Render_text 428 140 (snprintf_info ('' '' @ fmt_d (fi_pattern (fi s)))) (red s),
      Render_text 300 155 (if paused s \<noteq> 0 then ''Paused'' else ''Playing'') (white s)]"

text \<open>Lines 248--277: the six fields of the song information.\<close>

definition song_fields :: "main_state \<Rightarrow> lib_call list" where
  "song_fields s =
     [Render_text 10 10 (snprintf_info ''Title:'') (white s),
      Render_text 60 10 (snprintf_info ('' '' @ mod_name (mi s))) (blue s),
      Render_text 10 30 (snprintf_info ''Type:'') (white s),
      Render_text 50 30 (snprintf_info ('' '' @ mod_type (mi s))) (blue s),
      Render_text 10 50 (snprintf_info ''Channels:'') (white s),
      Render_text 90 50 (snprintf_info ('' '' @ fmt_d (mod_chn (mi s)))) (blue s),
      Render_text 10 70 (snprintf_info ''Patterns:'') (white s),
      Render_text 90 70 (snprintf_info ('' '' @ fmt_d (mod_pat (mi s)))) (blue s),
      Render_text 10 90 (snprintf_info ''Instruments:'') (white s),
      Render_text 120 90 (snprintf_info ('' '' @ fmt_d (mod_ins (mi s)))) (blue s),
      Render_text 10 110 (snprintf_info ''Length:'') (white s),
      Render_text 70 110 (snprintf_info ('' '' @ fmt_d (mod_len (mi s)) @ '' patterns'')) (blue s)]"

text \<open>Lines 305--309: the line of channel \<open>ch\<close>.\<close>

definition channel_line :: "main_state \<Rightarrow> int \<Rightarrow> error + lib_call" where
  "channel_line s ch =
     (let note = ci_note (fi_channel_info (fi s) (nat ch));
          ins = ci_instrument (fi_channel_info (fi s) (nat ch))
      in case note_str note of
           Inl e \<Rightarrow> Inl e
         | Inr note_s \<Rightarrow>
             Inr (Render_text 300 (10 + ch * 15)
                    (snprintf_info (''Ch'' @ fmt_02d (ch + 1) @ '': '' @ note_s @ '' Ins:'' @ fmt_02d ins))
                    (yellow s)))"

text \<open>The results of a loop body run over a list, up to the first error.\<close>

fun collect :: "(error + 'a) list \<Rightarrow> error + 'a list" where
  "collect [] = Inr []"
| "collect (Inl e # rs) = Inl e"
| "collect (Inr x # rs) = (case collect rs of Inl e \<Rightarrow> Inl e | Inr xs \<Rightarrow> Inr (x # xs))"

text \<open>Lines 303--310: the channel lines of the information panel.\<close>

definition channel_lines :: "main_state \<Rightarrow> error + lib_call list" where
  "channel_lines s =
     collect (map (channel_line s) (channels_upto (info_max_channels (mod_chn (mi s)))))"

text \<open>Lines 247--310, the branch \<^verbatim>\<open>if (!show_visualizer)\<close>.\<close>

definition draw_info :: "main_state \<Rightarrow> error + lib_call list" where
  "draw_info s =
     (case channel_lines s of
        Inl e \<Rightarrow> Inl e
      | Inr ls \<Rightarrow> Inr (song_fields s @ controls s @ ls))"

text \<open>Lines 323--341: the bar of channel \<open>ch\<close> and its number below.\<close>

definition draw_bar :: "main_state \<Rightarrow> int \<Rightarrow> int \<Rightarrow> lib_call list" where
  "draw_bar s bw ch =
     [SDL_FillRect (Some (bar_rect bw ch (ci_volume (fi_channel_info (fi s) (nat ch))))) 255 255 0,
      Render_text (base_x + ch * (bw + spacing)) (base_y + bar_max_height + 5)
        (snprintf_info (fmt_d (ch + 1))) (white s)]"

text \<open>Lines 311--357, the \<^verbatim>\<open>else\<close> branch.\<close>

definition draw_visualizer :: "main_state \<Rightarrow> error + lib_call list" where
  "draw_visualizer s =
     (case bar_width (mod_chn (mi s)) of
        Inl e \<Rightarrow> Inl e
      | Inr bw \<Rightarrow>
          Inr (concat (map (draw_bar s bw) (channels_upto (mod_chn (mi s)))) @ controls s))"

text \<open>Lines 243--360: the screen is cleared, one of the two branches draws, the window is updated.\<close>

definition draw_frame :: "main_state \<Rightarrow> error + lib_call list" where
  "draw_frame s =
     (case (if c_not (show_visualizer s) \<noteq> 0 then draw_info s else draw_visualizer s) of
        Inl e \<Rightarrow> Inl e
      | Inr cs \<Rightarrow> Inr ([SDL_FillRect None 0 0 0] @ cs @ [SDL_UpdateWindowSurface, SDL_Delay 20]))"

text \<open>
  Telling the two displays apart in what a frame draws.  The bars of the visualizer
  are the only filled rectangles that are not the whole surface.  The texts of the
  information panel (the song fields down to row 110, the channel lines down to row
  115) are the only texts above row 125, where the visualizer writes its channel
  numbers; the control lines, drawn by both, are in rows 140 and 155.
\<close>

definition is_bar :: "lib_call \<Rightarrow> bool" where
  "is_bar c = (case c of SDL_FillRect (Some r) _ _ _ \<Rightarrow> True | _ \<Rightarrow> False)"

definition is_panel_text :: "lib_call \<Rightarrow> bool" where
  "is_panel_text c = (case c of Render_text x y t col \<Rightarrow> y < 125 | _ \<Rightarrow> False)"

subsection \<open>The main loop (lines 175--361)\<close>

text \<open>What one frame receives: the queued events and what \<^verbatim>\<open>xmp_get_frame_info\<close> stores.\<close>

record frame_input =
  events :: "(event \<times> lib_outcome) list"
  frame_info :: xmp_frame_info

text \<open>Lines 238--241.\<close>

definition get_frame_info :: "xmp_frame_info \<Rightarrow> main_state \<Rightarrow> main_state" where
  "get_frame_info f s =
     (let s1 = s\<lparr>fi := f, calls := calls s @ [Xmp_get_frame_info (ctx s)]\<rparr>
      in if fi_loop_count (fi s1) > 0 \<or> stopped s1 \<noteq> 0 then s1\<lparr>done_flag := 1\<rparr> else s1)"

text \<open>
  One run of the body of \<^verbatim>\<open>while (!done)\<close>.  An error of the drawing code ends it; the
  only one there is, the division of line 319, comes after the screen was cleared and
  before anything else is drawn.
\<close>

definition frame_step :: "frame_input \<Rightarrow> main_state \<Rightarrow> error \<times> main_state + main_state" where
  "frame_step f s =
     (let s1 = get_frame_info (frame_info f) (poll_events (events f) s)
      in case draw_frame s1 of
           Inl e \<Rightarrow> Inl (e, s1\<lparr>calls := calls s1 @ [SDL_FillRect None 0 0 0]\<rparr>)
         | Inr cs \<Rightarrow> Inr (s1\<lparr>calls := calls s1 @ cs\<rparr>))"

text \<open>
  How a run ends: the loop is left with \<^verbatim>\<open>done\<close> set, or the inputs are used up while
  the program still runs, or an undefined operation stops it.
\<close>

datatype loop_result = Loop_left main_state | Loop_running main_state | Loop_trapped error main_state

fun main_loop :: "frame_input list \<Rightarrow> main_state \<Rightarrow> loop_result" where
  "main_loop [] s = (if done_flag s \<noteq> 0 then Loop_left s else Loop_running s)"
| "main_loop (f # fs) s =
     (if done_flag s \<noteq> 0 then Loop_left s
      else case frame_step f s of
             Inl (e, s') \<Rightarrow> Loop_trapped e s'
           | Inr s' \<Rightarrow> main_loop fs s')"

subsection \<open>Start-up (lines 35--173) and the whole program\<close>

text \<open>Lines 95--97: the prompt.\<close>

definition drop_prompt :: "lib_call list" where
  "drop_prompt =
     [SDL_FillRect None 0 0 0,
      Render_text 100 80 ''Drag and drop a module file to play'' (SDL_Color 255 255 255 0),
      SDL_UpdateWindowSurface]"

text \<open>
  How the waiting loop of lines 93--115 ends: by \<^verbatim>\<open>return 0\<close>, by going on to line 118
  with a file path and the value of \<^verbatim>\<open>file_loaded\<close>, or not at all (the program stays
  blocked in \<^verbatim>\<open>SDL_WaitEvent\<close>).  Each carries the calls made.
\<close>

datatype wait_result =
    Wait_quit "lib_call list"
  | Wait_proceed string int "lib_call list"
  | Wait_blocked "lib_call list"

text \<open>
  Lines 99--114, over the successive results of \<^verbatim>\<open>SDL_WaitEvent\<close>: \<open>Some ev\<close> when it
  returns 1 with an event, \<open>None\<close> when it returns 0.  After a 0 the inner loop ends,
  line 114 leaves the outer loop when \<^verbatim>\<open>modfile[0]\<close> is set, and otherwise the outer
  loop draws the prompt and waits again.
\<close>

fun wait_loop :: "event option list \<Rightarrow> string \<Rightarrow> lib_call list \<Rightarrow> wait_result" where
  "wait_loop [] mf cs = Wait_blocked (cs @ [SDL_WaitEvent])"
| "wait_loop (None # rs) mf cs =
     (if mf \<noteq> [] then Wait_proceed mf 0 (cs @ [SDL_WaitEvent])
      else wait_loop rs mf (cs @ [SDL_WaitEvent] @ drop_prompt))"
| "wait_loop (Some SDL_QUIT # rs) mf cs = Wait_quit (cs @ [SDL_WaitEvent])"
| "wait_loop (Some (SDL_DROPFILE file) # rs) mf cs =
     Wait_proceed (strncpy_modfile file) 1 (cs @ [SDL_WaitEvent, SDL_free file])"
| "wait_loop (Some (SDL_KEYDOWN k) # rs) mf cs = wait_loop rs mf (cs @ [SDL_WaitEvent])"
| "wait_loop (Some SDL_other_event # rs) mf cs = wait_loop rs mf (cs @ [SDL_WaitEvent])"

text \<open>Lines 93--115: \<^verbatim>\<open>file_loaded\<close> is 0 at first, so the outer loop is entered.\<close>

definition startup_loop :: "event option list \<Rightarrow> string \<Rightarrow> wait_result" where
  "startup_loop rs mf = wait_loop rs mf drop_prompt"

text \<open>
  How the program ends: with an exit status, or still running when the inputs are
  used up, or stopped by an undefined operation; each with the library calls made
  and the lines written to the standard error stream.
\<close>

datatype run_result =
    Exited int "lib_call list" "string list"
  | Running "lib_call list" "string list"
  | Trapped error "lib_call list" "string list"

text \<open>
  What the environment gives to a run: the command line, the answers of the
  initialisation calls, the successive results of \<^verbatim>\<open>SDL_WaitEvent\<close>, the answers of the
  first load, and the frames of the main loop.
\<close>

record env =
  argv :: "string list"
  sdl_init_rc :: int
  sdl_error :: string
  ttf_init_rc :: int
  ttf_error :: string
  font :: "handle option"
  window :: "handle option"
  wait_results :: "event option list"
  first_load :: lib_outcome
  frames :: "frame_input list"

definition font_path :: string where
  "font_path = ''/usr/share/fonts/truetype/liberation/LiberationMono-Regular.ttf''"

text \<open>The calls of lines 42--91 when every one of them succeeds.\<close>

definition init_calls :: "lib_call list" where
  "init_calls =
     [SDL_Init, TTF_Init, TTF_OpenFont font_path 14, SDL_CreateWindow,
      SDL_CreateRenderer, SDL_GetWindowSurface, SDL_EventState]"

text \<open>Lines 363--373.\<close>

definition shutdown :: "xmp_context \<Rightarrow> lib_call list" where
  "shutdown c =
     teardown c @ [SDL_FreeSurface, TTF_CloseFont, TTF_Quit, SDL_DestroyRenderer,
                   SDL_DestroyWindow, SDL_Quit]"

text \<open>
  The frame information before the first call of \<^verbatim>\<open>xmp_get_frame_info\<close>; the program
  never reads it.
\<close>

definition no_frame_info :: xmp_frame_info where
  "no_frame_info =
     \<lparr> fi_loop_count = 0, fi_pattern = 0,
       fi_channel_info = (\<lambda>_. \<lparr> ci_note = 0, ci_instrument = 0, ci_volume = 0 \<rparr>) \<rparr>"

text \<open>
  Lines 118--173: the first load.  Either the program ends (a failed step), or the
  main loop is entered in the state built here.
\<close>

definition load_and_start ::
  "lib_outcome \<Rightarrow> string \<Rightarrow> lib_call list \<Rightarrow> run_result + main_state" where
  "load_and_start oc mf cs =
     (let c = new_ctx oc; cs1 = cs @ [Xmp_create_context] in
      if c = None then Inl (Exited 1 cs1 [''Failed to create xmp context'' @ newline])
      else
        let cs2 = cs1 @ [Xmp_load_module c mf] in
        if load_rc oc < 0
        then Inl (Exited 1 (cs2 @ [Xmp_free_context c]) [''Failed to load module: '' @ mf @ newline])
        else
          let cs3 = cs2 @ [Xmp_get_module_info c, SDL_OpenAudio c] in
          if open_rc oc < 0
          then Inl (Exited 1
                 (cs3 @ [SDL_FreeSurface, TTF_CloseFont, TTF_Quit, SDL_Quit,
                         Xmp_release_module c, Xmp_free_context c])
                 [''SDL_OpenAudio: '' @ audio_error oc @ newline])
          else
            let cs4 = cs3 @ [Xmp_start_player c 44100 0] in
            if start_rc oc < 0
            then Inl (Exited 1
                   (cs4 @ [SDL_CloseAudio, SDL_FreeSurface, TTF_CloseFont, TTF_Quit, SDL_Quit,
                           Xmp_release_module c, Xmp_free_context c])
                   [''xmp_start_player failed'' @ newline])
            else Inr \<lparr> paused = 0, stopped = 0, modfile = mf, ctx = c, mi = new_mi oc,
                       spec_userdata = c, fi = no_frame_info, done_flag = 0,
                       last_pattern = - 1,
                       white = SDL_Color 255 255 255 0, blue = SDL_Color 0 128 255 0,
                       yellow = SDL_Color 255 255 0 0, red = SDL_Color 255 0 0 0,
                       show_visualizer = 0,
                       calls = cs4 @ [SDL_PauseAudio 0], stderr = [] \<rparr>)"

text \<open>Lines 175--375: the main loop and what follows it.\<close>

definition run_loop :: "frame_input list \<Rightarrow> main_state \<Rightarrow> run_result" where
  "run_loop fs s =
     (case main_loop fs s of
        Loop_left s' \<Rightarrow> Exited 0 (calls s' @ shutdown (ctx s')) (stderr s')
      | Loop_running s' \<Rightarrow> Running (calls s') (stderr s')
      | Loop_trapped e s' \<Rightarrow> Trapped e (calls s') (stderr s'))"

text \<open>
  Lines 36--40: \<^verbatim>\<open>modfile\<close> starts empty and receives \<^verbatim>\<open>argv[1]\<close> when \<^verbatim>\<open>argc >= 2\<close>.
\<close>

definition argv_modfile :: "string list \<Rightarrow> string" where
  "argv_modfile args = (if 2 \<le> length args then strncpy_modfile (args ! 1) else [])"

text \<open>Lines 35--375.\<close>

definition main :: "env \<Rightarrow> run_result" where
  "main e =
     (let modfile0 = argv_modfile (argv e)
      in if sdl_init_rc e < 0
         then Exited 1 [SDL_Init] [''SDL_Init: '' @ sdl_error e @ newline]
         else if ttf_init_rc e < 0
         then Exited 1 [SDL_Init, TTF_Init, SDL_Quit] [''TTF_Init: '' @ ttf_error e @ newline]
         else if font e = None
         then Exited 1 [SDL_Init, TTF_Init, TTF_OpenFont font_path 14, TTF_Quit, SDL_Quit]
                [''TTF_OpenFont: '' @ ttf_error e @ newline]
         else if window e = None
         then Exited 1
                [SDL_Init, TTF_Init, TTF_OpenFont font_path 14, SDL_CreateWindow,
                 TTF_CloseFont, TTF_Quit, SDL_Quit]
                [''SDL_CreateWindow: '' @ sdl_error e @ newline]
         else
           case startup_loop (wait_results e) modfile0 of
             Wait_quit cs \<Rightarrow>
               Exited 0
                 (init_calls @ cs @
                  [TTF_CloseFont, TTF_Quit, SDL_DestroyRenderer, SDL_DestroyWindow, SDL_Quit])
                 []
           | Wait_blocked cs \<Rightarrow> Running (init_calls @ cs) []
           | Wait_proceed mf file_loaded cs \<Rightarrow>
               (case load_and_start (first_load e) mf (init_calls @ cs) of
                  Inl r \<Rightarrow> r
                | Inr s \<Rightarrow> run_loop (frames e) s))"



text \<open>The four initialisation steps of lines 42--71 all succeed.\<close>

definition init_succeeds :: "env \<Rightarrow> bool" where
  "init_succeeds e \<longleftrightarrow>
     0 \<le> sdl_init_rc e \<and> 0 \<le> ttf_init_rc e \<and> font e \<noteq> None \<and> window e \<noteq> None"

text \<open>
  The results of \<^verbatim>\<open>SDL_WaitEvent\<close> that the waiting loop passes over: an event that is
  neither a quit nor a file drop.
\<close>

definition ignored :: "event option \<Rightarrow> bool" where
  "ignored r = (case r of Some (SDL_KEYDOWN k) \<Rightarrow> True | Some SDL_other_event \<Rightarrow> True | _ \<Rightarrow> False)"

subsection \<open>The states of the main loop\<close>

text \<open>
  The states the program can be in while the main loop runs: the state in which the
  loop is entered, and every state that polling, the handling of an event, the query
  of the frame information and the drawing of a frame lead to from such a state.
\<close>

inductive reachable :: "main_state \<Rightarrow> bool" where
  entered: "load_and_start oc mf cs = Inr s \<Longrightarrow> reachable s"
| polled: "reachable s \<Longrightarrow> reachable (s\<lparr>calls := calls s @ [SDL_PollEvent]\<rparr>)"
| handled: "reachable s \<Longrightarrow> reachable (fst (handle_event oc ev s))"
| queried: "reachable s \<Longrightarrow> reachable (get_frame_info f s)"
| drawn: "reachable s \<Longrightarrow> draw_frame s = Inr cs \<Longrightarrow> reachable (s\<lparr>calls := calls s @ cs\<rparr>)"

text \<open>The four flags hold 0 or 1.\<close>

definition flags_boolean :: "main_state \<Rightarrow> bool" where
  "flags_boolean s \<longleftrightarrow>
     (paused s = 0 \<or> paused s = 1) \<and> (stopped s = 0 \<or> stopped s = 1) \<and>
     (done_flag s = 0 \<or> done_flag s = 1) \<and> (show_visualizer s = 0 \<or> show_visualizer s = 1)"

subsection \<open>A concrete module, frame and state\<close>

text \<open>
  A two-channel module whose first channel plays the highest note of the table and
  whose second channel carries a note number past the table, both at full volume.
\<close>

definition example_module :: xmp_module where
  "example_module =
     \<lparr> mod_name = ''demo'', mod_type = ''XM'', mod_chn = 2, mod_pat = 3, mod_ins = 4, mod_len = 5 \<rparr>"

definition example_frame_info :: xmp_frame_info where
  "example_frame_info =
     \<lparr> fi_loop_count = 0, fi_pattern = 1,
       fi_channel_info = (\<lambda>i. \<lparr> ci_note = 97 + int i, ci_instrument = 1, ci_volume = 64 \<rparr>) \<rparr>"

definition example_outcome :: lib_outcome where
  "example_outcome =
     \<lparr> new_ctx = Some 1, load_rc = 0, new_mi = example_module, open_rc = 0, start_rc = 0,
       audio_error = ''no device'' \<rparr>"

text \<open>The same answers, but the module fails to load.\<close>

definition example_failure :: lib_outcome where
  "example_failure = example_outcome\<lparr>load_rc := - 1\<rparr>"

text \<open>
  The calls of a run that starts without trouble, receives the file \<open>a.mod\<close> by a drop
  and starts to play it.
\<close>

definition example_entry_calls :: "lib_call list" where
  "example_entry_calls =
     init_calls @ drop_prompt @
     [SDL_WaitEvent, SDL_free ''a.mod'', Xmp_create_context, Xmp_load_module (Some 1) ''a.mod'',
      Xmp_get_module_info (Some 1), SDL_OpenAudio (Some 1), Xmp_start_player (Some 1) 44100 0,
      SDL_PauseAudio 0]"

text \<open>The state of that run in its first frame, after the frame information is read.\<close>

definition example_state :: main_state where
  "example_state =
     \<lparr> paused = 0, stopped = 0, modfile = ''a.mod'', ctx = Some 1, mi = example_module,
       spec_userdata = Some 1, fi = example_frame_info, done_flag = 0, last_pattern = - 1,
       white = SDL_Color 255 255 255 0, blue = SDL_Color 0 128 255 0,
       yellow = SDL_Color 255 255 0 0, red = SDL_Color 255 0 0 0,
       show_visualizer = 0, calls = example_entry_calls @ [Xmp_get_frame_info (Some 1)],
       stderr = [] \<rparr>"

text \<open>The same state after a V key press.\<close>

definition example_visualizer_state :: main_state where
  "example_visualizer_state = example_state\<lparr>show_visualizer := 1\<rparr>"

text \<open>
  A run with the path \<open>a.mod\<close> on the command line in which \<^verbatim>\<open>SDL_WaitEvent\<close> returns 0
  at once, and a run in which the file is dropped instead.
\<close>

definition example_env :: env where
  "example_env =
     \<lparr> argv = [''play_mod'', ''a.mod''], sdl_init_rc = 0, sdl_error = ''no display'',
       ttf_init_rc = 0, ttf_error = ''no font'', font = Some 2, window = Some 3,
       wait_results = [None], first_load = example_outcome,
       frames = [] \<rparr>"

definition example_drop_env :: env where
  "example_drop_env = example_env\<lparr>wait_results := [Some (SDL_DROPFILE ''a.mod'')]\<rparr>"



text \<open>
  A module without channels: the state of the example with the visualizer switched on,
  and a run that loads such a module and receives a V key press in its first frame.
\<close>

definition example_zero_state :: main_state where
  "example_zero_state = example_visualizer_state\<lparr>mi := example_module\<lparr>mod_chn := 0\<rparr>\<rparr>"

definition example_zero_env :: env where
  "example_zero_env =
     example_drop_env
       \<lparr> first_load := example_outcome\<lparr>new_mi := example_module\<lparr>mod_chn := 0\<rparr>\<rparr>,
         frames := [\<lparr>events = [(SDL_KEYDOWN SDLK_v, example_outcome)],
                     frame_info = example_frame_info\<rparr>] \<rparr>"

section \<open>Properties\<close>

lemma length_note_names: "length note_names = 98"
  by (simp add: note_names_def)

subsection \<open>Arithmetic of the visualizer\<close>

lemma c_div_pos: "0 \<le> a \<Longrightarrow> 0 < b \<Longrightarrow> c_div a b = Inr (a div b)"
  by (simp add: c_div_def)

lemma c_div_total: "b \<noteq> 0 \<Longrightarrow> \<exists>q. c_div a b = Inr q"
  by (simp add: c_div_def)

lemma c_div_zero: "c_div a 0 = Inl DivisionByZero"
  by (simp add: c_div_def)

lemma bar_height_eq: "0 \<le> v \<Longrightarrow> bar_height v = v * 110 div 64"
  by (simp add: bar_height_def bar_max_height_def c_div_pos)

lemma bar_height_range: "0 \<le> v \<Longrightarrow> v \<le> 64 \<Longrightarrow> 0 \<le> bar_height v \<and> bar_height v \<le> 110"
proof -
  assume v: "0 \<le> v" "v \<le> 64"
  have "v * 110 div 64 \<le> 64 * 110 div 64"
    by (rule zdiv_mono1) (use v in auto)
  moreover have "0 \<le> v * 110 div 64"
    using v by (simp add: pos_imp_zdiv_nonneg_iff)
  ultimately show ?thesis
    using v by (simp only: bar_height_eq) simp
qed

lemma bar_width_clamped: "chn \<noteq> 0 \<Longrightarrow> \<exists>w. bar_width chn = Inr w \<and> 2 \<le> w"
  using c_div_total [of chn "visualizer_width - (chn - 1) * spacing"]
  by (auto simp: bar_width_def)

lemma bar_width_value: "1 \<le> chn \<Longrightarrow> chn \<le> 211 \<Longrightarrow> bar_width chn = Inr (max 2 ((420 - (chn - 1) * 2) div chn))"
  by (simp add: bar_width_def visualizer_width_def spacing_def c_div_pos max_def)

lemma bar_width_zero: "bar_width 0 = Inl DivisionByZero"
  by (simp add: bar_width_def c_div_zero)


text \<open>
  Claim C10.  For a channel volume \<open>v\<close> with \<open>0 \<le> v \<le> 64\<close> the bar height is
  \<open>v * 110 div 64\<close> and lies between 0 and 110, and the rectangle of the bar starts at
  or below \<open>base_y\<close> and ends exactly at \<open>base_y + 110\<close>, so it lies in the band
  \<open>[base_y, base_y + 110]\<close>.  For a channel count of at least 1 the width computation
  returns a width of at least 2 (the quotient \<open>(420 - (chn - 1) * 2) / chn\<close> or 2, whichever
  is larger); for a channel count of 0 it divides by zero.
\<close>

theorem visualizer_bar_bounds:
  "(0 \<le> v \<and> v \<le> 64 \<longrightarrow>
      bar_height v = v * 110 div 64 \<and> 0 \<le> bar_height v \<and> bar_height v \<le> 110 \<and>
      base_y \<le> rect_y (bar_rect bw ch v) \<and>
      rect_y (bar_rect bw ch v) + rect_h (bar_rect bw ch v) = base_y + 110)
   \<and> (1 \<le> chn \<longrightarrow> (\<exists>w. bar_width chn = Inr w \<and> 2 \<le> w))
   \<and> (1 \<le> chn \<and> chn \<le> 211 \<longrightarrow> bar_width chn = Inr (max 2 ((420 - (chn - 1) * 2) div chn)))
   \<and> bar_width 0 = Inl DivisionByZero"
proof -
  have a: "0 \<le> v \<and> v \<le> 64 \<longrightarrow>
      bar_height v = v * 110 div 64 \<and> 0 \<le> bar_height v \<and> bar_height v \<le> 110 \<and>
      base_y \<le> rect_y (bar_rect bw ch v) \<and>
      rect_y (bar_rect bw ch v) + rect_h (bar_rect bw ch v) = base_y + 110"
    using bar_height_range [of v] bar_height_eq [of v]
    by (auto simp: bar_rect_def bar_max_height_def)
  have b: "1 \<le> chn \<longrightarrow> (\<exists>w. bar_width chn = Inr w \<and> 2 \<le> w)"
    using bar_width_clamped [of chn] by auto
  show ?thesis using a b bar_width_value [of chn] bar_width_zero by blast
qed

theorem visualizer_bar_bounds_witness:
  "bar_height 64 = 110 \<and> bar_height 0 = 0
   \<and> base_y \<le> rect_y (bar_rect 209 1 64)
   \<and> rect_y (bar_rect 209 1 64) + rect_h (bar_rect 209 1 64) = base_y + 110
   \<and> bar_width 2 = Inr 209 \<and> bar_width 0 = Inl DivisionByZero"
  using visualizer_bar_bounds [where v = 64 and bw = 209 and ch = 1 and chn = 2]
        visualizer_bar_bounds [where v = 0 and bw = 209 and ch = 1 and chn = 2]
  by simp

subsection \<open>The note display\<close>

lemma note_str_in_table: "0 < n \<Longrightarrow> n < 98 \<Longrightarrow> note_str n = Inr (note_names ! nat n)"
  by (simp add: note_str_def note_names_at_def length_note_names)

lemma note_str_placeholder: "n \<le> 0 \<or> 98 \<le> n \<Longrightarrow> note_str n = Inr ''---''"
  by (auto simp: note_str_def length_note_names)

lemma note_str_total: "\<exists>str. note_str n = Inr str"
  using note_str_in_table [of n] note_str_placeholder [of n] by fastforce

lemma note_str_97: "note_str 97 = Inr ''C-8''"
  by (simp add: note_str_def note_names_at_def length_note_names) (simp add: note_names_def)

lemma collect_map_Inr: "(\<And>x. x \<in> set xs \<Longrightarrow> f x = Inr (g x)) \<Longrightarrow> collect (map f xs) = Inr (map g xs)"
  by (induction xs) auto

text \<open>
  Claim C9 as stated, with the bound 97, fails: note 97 is shown as \<open>C-8\<close>, the last
  entry of the table, and not as the placeholder.
\<close>

theorem note_str_97_counterexample:
  "note_str 97 = Inr ''C-8''
   \<and> \<not> (\<forall>n. (0 < n \<and> n < 97 \<longrightarrow> note_str n = Inr (note_names ! nat n))
         \<and> (n \<le> 0 \<or> 97 \<le> n \<longrightarrow> note_str n = Inr ''---''))"
proof
  show "note_str 97 = Inr ''C-8''" by (rule note_str_97)
  show "\<not> (\<forall>n. (0 < n \<and> n < 97 \<longrightarrow> note_str n = Inr (note_names ! nat n))
         \<and> (n \<le> 0 \<or> 97 \<le> n \<longrightarrow> note_str n = Inr ''---''))"
  proof
    assume "\<forall>n. (0 < n \<and> n < 97 \<longrightarrow> note_str n = Inr (note_names ! nat n))
         \<and> (n \<le> 0 \<or> 97 \<le> n \<longrightarrow> note_str n = Inr ''---'')"
    then have "note_str 97 = Inr ''---''" by simp
    then show False by (simp add: note_str_97)
  qed
qed

lemma channel_line_Inr:
  "channel_line s ch =
     Inr (Render_text 300 (10 + ch * 15)
            (snprintf_info (''Ch'' @ fmt_02d (ch + 1) @ '': '' @
               projr (note_str (ci_note (fi_channel_info (fi s) (nat ch)))) @ '' Ins:'' @
               fmt_02d (ci_instrument (fi_channel_info (fi s) (nat ch)))))
            (yellow s))"
  using note_str_total [of "ci_note (fi_channel_info (fi s) (nat ch))"]
  by (auto simp: channel_line_def)

lemma channel_lines_eq:
  "channel_lines s =
     Inr (map (\<lambda>ch. Render_text 300 (10 + ch * 15)
            (snprintf_info (''Ch'' @ fmt_02d (ch + 1) @ '': '' @
               projr (note_str (ci_note (fi_channel_info (fi s) (nat ch)))) @ '' Ins:'' @
               fmt_02d (ci_instrument (fi_channel_info (fi s) (nat ch)))))
            (yellow s))
          (channels_upto (info_max_channels (mod_chn (mi s)))))"
  unfolding channel_lines_def by (rule collect_map_Inr) (rule channel_line_Inr)

lemma length_channels_upto: "length (channels_upto n) = nat n"
  by (simp add: channels_upto_def)

lemma channels_upto_nth: "i < nat n \<Longrightarrow> channels_upto n ! i = int i"
  by (simp add: channels_upto_def)

text \<open>
  Claim C9, as amended.  The note-name table has 98 entries.  The note shown for a
  channel is \<open>note_names[note]\<close> when \<open>0 < note < 98\<close>, an index inside the table, and
  the placeholder \<open>---\<close> when \<open>note \<le> 0\<close> or \<open>note \<ge> 98\<close>; the table is never read out
  of bounds.  The information panel shows \<open>min chn 8\<close> channel lines, at most 8, and
  line \<open>i\<close> shows the note string of channel \<open>i\<close>.
\<close>

theorem note_display_in_bounds:
  "(0 < n \<and> n < 98 \<longrightarrow> note_str n = Inr (note_names ! nat n) \<and> nat n < length note_names)
   \<and> (n \<le> 0 \<or> 98 \<le> n \<longrightarrow> note_str n = Inr ''---'')
   \<and> note_str n \<noteq> Inl IndexOutOfBounds
   \<and> (\<exists>ls. channel_lines s = Inr ls
         \<and> length ls = nat (min (mod_chn (mi s)) 8) \<and> length ls \<le> 8
         \<and> (\<forall>i < length ls. \<exists>str.
               note_str (ci_note (fi_channel_info (fi s) i)) = Inr str \<and>
               ls ! i = Render_text 300 (10 + int i * 15)
                 (snprintf_info (''Ch'' @ fmt_02d (int i + 1) @ '': '' @ str @ '' Ins:'' @
                    fmt_02d (ci_instrument (fi_channel_info (fi s) i))))
                 (yellow s)))"
proof -
  have a: "0 < n \<and> n < 98 \<longrightarrow> note_str n = Inr (note_names ! nat n) \<and> nat n < length note_names"
    by (auto simp: note_str_in_table length_note_names)
  have b: "n \<le> 0 \<or> 98 \<le> n \<longrightarrow> note_str n = Inr ''---''"
    using note_str_placeholder by blast
  have c: "note_str n \<noteq> Inl IndexOutOfBounds"
    using note_str_total [of n] by auto
  let ?ls = "map (\<lambda>ch. Render_text 300 (10 + ch * 15)
            (snprintf_info (''Ch'' @ fmt_02d (ch + 1) @ '': '' @
               projr (note_str (ci_note (fi_channel_info (fi s) (nat ch)))) @ '' Ins:'' @
               fmt_02d (ci_instrument (fi_channel_info (fi s) (nat ch)))))
            (yellow s))
          (channels_upto (info_max_channels (mod_chn (mi s))))"
  have len: "length ?ls = nat (min (mod_chn (mi s)) 8)"
    by (simp add: length_channels_upto info_max_channels_def min_def)
  have each: "\<exists>str. note_str (ci_note (fi_channel_info (fi s) i)) = Inr str \<and>
               ?ls ! i = Render_text 300 (10 + int i * 15)
                 (snprintf_info (''Ch'' @ fmt_02d (int i + 1) @ '': '' @ str @ '' Ins:'' @
                    fmt_02d (ci_instrument (fi_channel_info (fi s) i))))
                 (yellow s)" if "i < length ?ls" for i
  proof -
    obtain str where str: "note_str (ci_note (fi_channel_info (fi s) i)) = Inr str"
      using note_str_total by blast
    have "i < nat (info_max_channels (mod_chn (mi s)))"
      using that by (simp add: length_channels_upto)
    then show ?thesis
      using str by (simp add: channels_upto_nth length_channels_upto)
  qed
  have d: "\<exists>ls. channel_lines s = Inr ls
         \<and> length ls = nat (min (mod_chn (mi s)) 8) \<and> length ls \<le> 8
         \<and> (\<forall>i < length ls. \<exists>str.
               note_str (ci_note (fi_channel_info (fi s) i)) = Inr str \<and>
               ls ! i = Render_text 300 (10 + int i * 15)
                 (snprintf_info (''Ch'' @ fmt_02d (int i + 1) @ '': '' @ str @ '' Ins:'' @
                    fmt_02d (ci_instrument (fi_channel_info (fi s) i))))
                 (yellow s))"
  proof (intro exI conjI)
    show "channel_lines s = Inr ?ls" by (rule channel_lines_eq)
    show "length ?ls = nat (min (mod_chn (mi s)) 8)" by (rule len)
    show "length ?ls \<le> 8" unfolding len by simp
    show "\<forall>i < length ?ls. \<exists>str.
               note_str (ci_note (fi_channel_info (fi s) i)) = Inr str \<and>
               ?ls ! i = Render_text 300 (10 + int i * 15)
                 (snprintf_info (''Ch'' @ fmt_02d (int i + 1) @ '': '' @ str @ '' Ins:'' @
                    fmt_02d (ci_instrument (fi_channel_info (fi s) i))))
                 (yellow s)"
      using each by blast
  qed
  show ?thesis using a b c d by blast
qed

lemma dec_nat_digit: "n < 10 \<Longrightarrow> dec_nat n = [digit_char n]"
  by (simp add: dec_nat.simps)

theorem note_display_in_bounds_witness:
  "note_str 49 = Inr ''C-4'' \<and> note_str 97 = Inr ''C-8'' \<and> note_str 0 = Inr ''---''
   \<and> note_str 98 = Inr ''---'' \<and> note_str (- 3) = Inr ''---''
   \<and> channel_lines example_state =
       Inr [Render_text 300 10 ''Ch01: C-8 Ins:01'' (SDL_Color 255 255 0 0),
            Render_text 300 25 ''Ch02: --- Ins:01'' (SDL_Color 255 255 0 0)]"
proof -
  have names: "note_names ! 49 = ''C-4''" "note_names ! 97 = ''C-8''"
    by (simp_all add: note_names_def)
  obtain ls where ls: "channel_lines example_state = Inr ls" "length ls = 2"
    "\<forall>i < length ls. \<exists>str.
        note_str (ci_note (fi_channel_info (fi example_state) i)) = Inr str \<and>
        ls ! i = Render_text 300 (10 + int i * 15)
          (snprintf_info (''Ch'' @ fmt_02d (int i + 1) @ '': '' @ str @ '' Ins:'' @
             fmt_02d (ci_instrument (fi_channel_info (fi example_state) i))))
          (yellow example_state)"
    using note_display_in_bounds [of 49 example_state]
    by (auto simp: example_state_def example_module_def)
  have n97: "note_str 97 = Inr ''C-8''" and n98: "note_str 98 = Inr ''---''"
    using note_display_in_bounds [of 97 example_state] note_display_in_bounds [of 98 example_state]
    by (simp_all add: names)
  have l0: "ls ! 0 = Render_text 300 10 ''Ch01: C-8 Ins:01'' (SDL_Color 255 255 0 0)"
    using ls(3) [rule_format, of 0] ls(2) n97
    by (simp add: example_state_def example_frame_info_def fmt_02d_def dec_nat_digit
        digit_char_def snprintf_info_def)
  have l1: "ls ! 1 = Render_text 300 25 ''Ch02: --- Ins:01'' (SDL_Color 255 255 0 0)"
    using ls(3) [rule_format, of 1] ls(2) n98
    by (simp add: example_state_def example_frame_info_def fmt_02d_def dec_nat_digit
        digit_char_def snprintf_info_def)
  have "ls = [ls ! 0, ls ! 1]"
    using ls(2) by (cases ls; cases "tl ls") auto
  then have "channel_lines example_state =
       Inr [Render_text 300 10 ''Ch01: C-8 Ins:01'' (SDL_Color 255 255 0 0),
            Render_text 300 25 ''Ch02: --- Ins:01'' (SDL_Color 255 255 0 0)]"
    using ls(1) l0 l1 by simp
  then show ?thesis
    using note_display_in_bounds [of 49 example_state] note_display_in_bounds [of 0 example_state]
      note_display_in_bounds [of "- 3" example_state] n97 n98
    by (simp add: names)
qed

subsection \<open>The audio callback\<close>

lemma size_t_of_int_less: "int i < len \<Longrightarrow> i < size_t_of_int len"
  by (auto simp: size_t_of_int_def)

text \<open>
  Claim C1.  When \<open>stopped\<close> is set, the callback calls no decoder and every byte of the
  \<open>len\<close> bytes of the buffer is 0, whatever \<open>paused\<close> holds.  When \<open>stopped\<close> is clear and
  \<open>paused\<close> is clear, the buffer is the one the decoder \<open>xmp_play_buffer\<close> leaves, called
  once on the context passed as \<open>udata\<close> with the same buffer and size.  When \<open>stopped\<close>
  is clear and \<open>paused\<close> is set, again no decoder is called and the \<open>len\<close> bytes are 0.
\<close>

theorem fill_audio_forwards_or_silences:
  "(stopped g \<noteq> 0 \<longrightarrow>
      snd (fill_audio dec g udata stream len) = [] \<and>
      (\<forall>i. int i < len \<longrightarrow> fst (fill_audio dec g udata stream len) i = 0))
   \<and> (stopped g = 0 \<and> paused g = 0 \<longrightarrow>
      fill_audio dec g udata stream len =
        (dec udata stream len 0, [Xmp_play_buffer udata len 0]))
   \<and> (stopped g = 0 \<and> paused g \<noteq> 0 \<longrightarrow>
      snd (fill_audio dec g udata stream len) = [] \<and>
      (\<forall>i. int i < len \<longrightarrow> fst (fill_audio dec g udata stream len) i = 0))"
  by (simp add: fill_audio_def memset_def size_t_of_int_less)

theorem fill_audio_forwards_or_silences_witness:
  "fst (fill_audio (\<lambda>c m n l. (\<lambda>i. 9)) \<lparr>paused = 0, stopped = 1\<rparr> (Some 1) (\<lambda>i. 7) 4) 3 = 0
   \<and> snd (fill_audio (\<lambda>c m n l. (\<lambda>i. 9)) \<lparr>paused = 0, stopped = 1\<rparr> (Some 1) (\<lambda>i. 7) 4) = []
   \<and> fst (fill_audio (\<lambda>c m n l. (\<lambda>i. 9)) \<lparr>paused = 1, stopped = 1\<rparr> (Some 1) (\<lambda>i. 7) 4) 3 = 0
   \<and> fst (fill_audio (\<lambda>c m n l. (\<lambda>i. 9)) \<lparr>paused = 1, stopped = 0\<rparr> (Some 1) (\<lambda>i. 7) 4) 3 = 0
   \<and> fst (fill_audio (\<lambda>c m n l. (\<lambda>i. 9)) \<lparr>paused = 0, stopped = 0\<rparr> (Some 1) (\<lambda>i. 7) 4) 3 = 9
   \<and> snd (fill_audio (\<lambda>c m n l. (\<lambda>i. 9)) \<lparr>paused = 0, stopped = 0\<rparr> (Some 1) (\<lambda>i. 7) 4)
       = [Xmp_play_buffer (Some 1) 4 0]"
  using fill_audio_forwards_or_silences
          [of "\<lparr>paused = 0, stopped = 1\<rparr>" "\<lambda>c m n l. (\<lambda>i. 9)" "Some 1" "\<lambda>i. 7" 4]
        fill_audio_forwards_or_silences
          [of "\<lparr>paused = 1, stopped = 1\<rparr>" "\<lambda>c m n l. (\<lambda>i. 9)" "Some 1" "\<lambda>i. 7" 4]
        fill_audio_forwards_or_silences
          [of "\<lparr>paused = 1, stopped = 0\<rparr>" "\<lambda>c m n l. (\<lambda>i. 9)" "Some 1" "\<lambda>i. 7" 4]
        fill_audio_forwards_or_silences
          [of "\<lparr>paused = 0, stopped = 0\<rparr>" "\<lambda>c m n l. (\<lambda>i. 9)" "Some 1" "\<lambda>i. 7" 4]
  by simp

subsection \<open>The flags in the main loop\<close>

lemma load_and_start_flags: "load_and_start oc mf cs = Inr s \<Longrightarrow> flags_boolean s"
  by (auto simp: load_and_start_def flags_boolean_def Let_def split: if_splits)

lemma drop_file_flags: "flags_boolean s \<Longrightarrow> flags_boolean (fst (drop_file oc file s))"
  by (simp add: drop_file_def fail_def flags_boolean_def Let_def)

lemma handle_event_flags: "flags_boolean s \<Longrightarrow> flags_boolean (fst (handle_event oc ev s))"
proof (cases "(oc, ev, s)" rule: handle_event.cases)
  case (6 oc' path s')
  assume "flags_boolean s"
  with 6 show ?thesis by (simp add: drop_file_flags)
qed (auto simp: flags_boolean_def c_not_def)

lemma get_frame_info_flags: "flags_boolean s \<Longrightarrow> flags_boolean (get_frame_info f s)"
  by (simp add: get_frame_info_def flags_boolean_def Let_def)

lemma reachable_flags: "reachable s \<Longrightarrow> flags_boolean s"
proof (induction rule: reachable.induct)
  case (entered oc mf cs s)
  then show ?case by (rule load_and_start_flags)
next
  case (polled s)
  then show ?case by (simp add: flags_boolean_def)
next
  case (handled s oc ev)
  then show ?case by (simp add: handle_event_flags)
next
  case (queried s f)
  then show ?case by (simp add: get_frame_info_flags)
next
  case (drawn s cs)
  then show ?case by (simp add: flags_boolean_def)
qed

text \<open>Every state the loop function passes through is one of the states of the main loop.\<close>

lemma poll_events_reachable: "reachable s \<Longrightarrow> reachable (poll_events evs s)"
proof (induction evs arbitrary: s)
  case Nil
  then show ?case by (simp add: reachable.polled)
next
  case (Cons a evs)
  obtain ev oc where a: "a = (ev, oc)" by (cases a)
  let ?s1 = "s\<lparr>calls := calls s @ [SDL_PollEvent]\<rparr>"
  have r: "reachable (fst (handle_event oc ev ?s1))"
    using Cons.prems by (intro reachable.handled reachable.polled)
  obtain s2 brk where h: "handle_event oc ev ?s1 = (s2, brk)"
    by (cases "handle_event oc ev ?s1")
  with r have r2: "reachable s2" by simp
  show ?case
    using r2 Cons.IH [OF r2] by (simp add: a h)
qed

lemma frame_step_reachable: "reachable s \<Longrightarrow> frame_step f s = Inr s' \<Longrightarrow> reachable s'"
  by (auto simp: frame_step_def Let_def split: sum.splits
      intro!: reachable.drawn reachable.queried poll_events_reachable)

lemma main_loop_reachable:
  "reachable s \<Longrightarrow> main_loop fs s = Loop_left s' \<or> main_loop fs s = Loop_running s' \<Longrightarrow>
   reachable s'"
proof (induction fs arbitrary: s)
  case Nil
  then show ?case by (auto split: if_splits)
next
  case (Cons f fs)
  show ?case
  proof (cases "done_flag s \<noteq> 0")
    case True
    with Cons.prems show ?thesis by auto
  next
    case False
    show ?thesis
    proof (cases "frame_step f s")
      case (Inl a)
      with False Cons.prems show ?thesis by (cases a) auto
    next
      case (Inr s1)
      then have "reachable s1" using Cons.prems(1) by (rule frame_step_reachable [rotated])
      moreover have "main_loop fs s1 = Loop_left s' \<or> main_loop fs s1 = Loop_running s'"
        using Cons.prems(2) False Inr by simp
      ultimately show ?thesis by (rule Cons.IH)
    qed
  qed
qed

text \<open>
  The callback and the flags, seen sequentially: what the callback does depends on the
  state of the program through \<open>paused\<close> and \<open>stopped\<close> only, and outside the handling of
  events a run of the loop body leaves both flags as they are.
\<close>

lemma fill_audio_reads_flags_only:
  "paused g = paused g' \<Longrightarrow> stopped g = stopped g' \<Longrightarrow>
   fill_audio dec g udata stream len = fill_audio dec g' udata stream len"
  by (simp add: fill_audio_def)

lemma get_frame_info_keeps_flags:
  "paused (get_frame_info f s) = paused s \<and> stopped (get_frame_info f s) = stopped s"
  by (simp add: get_frame_info_def Let_def)

lemma c_not_c_not: "x = 0 \<or> x = 1 \<Longrightarrow> c_not (c_not x) = x"
  by (auto simp: c_not_def)

lemma c_not_c_not_truth: "(c_not (c_not x) \<noteq> 0) = (x \<noteq> 0)"
  by (auto simp: c_not_def)

text \<open>
  Claim C6.  A key press of SPACE replaces \<open>paused\<close> by its negation and changes nothing
  else; a key press of V does the same to \<open>show_visualizer\<close>.  The negation of a flag is
  0 exactly when the flag is set.  In every state of the main loop, two SPACE key
  presses in a row give back the state they started from, and so the value of
  \<open>paused\<close>; two V key presses give back the state and the value of \<open>show_visualizer\<close>.
\<close>

theorem toggle_twice:
  "handle_event oc (SDL_KEYDOWN SDLK_SPACE) s = (s\<lparr>paused := c_not (paused s)\<rparr>, False)
   \<and> handle_event oc (SDL_KEYDOWN SDLK_v) s = (s\<lparr>show_visualizer := c_not (show_visualizer s)\<rparr>, False)
   \<and> (c_not (paused s) = 0) = (paused s \<noteq> 0)
   \<and> (c_not (show_visualizer s) = 0) = (show_visualizer s \<noteq> 0)
   \<and> (reachable s \<longrightarrow>
        fst (handle_event oc' (SDL_KEYDOWN SDLK_SPACE)
              (fst (handle_event oc (SDL_KEYDOWN SDLK_SPACE) s))) = s
        \<and> paused (fst (handle_event oc' (SDL_KEYDOWN SDLK_SPACE)
              (fst (handle_event oc (SDL_KEYDOWN SDLK_SPACE) s)))) = paused s
        \<and> fst (handle_event oc' (SDL_KEYDOWN SDLK_v)
              (fst (handle_event oc (SDL_KEYDOWN SDLK_v) s))) = s
        \<and> show_visualizer (fst (handle_event oc' (SDL_KEYDOWN SDLK_v)
              (fst (handle_event oc (SDL_KEYDOWN SDLK_v) s)))) = show_visualizer s)"
proof -
  have "c_not (c_not (paused s)) = paused s \<and> c_not (c_not (show_visualizer s)) = show_visualizer s"
    if "reachable s"
    using reachable_flags [OF that] by (simp add: flags_boolean_def c_not_c_not)
  then show ?thesis by (auto simp: c_not_def)
qed

lemma example_state_reachable: "reachable example_state"
proof -
  let ?cs = "init_calls @ drop_prompt @ [SDL_WaitEvent, SDL_free ''a.mod'']"
  obtain s where s: "load_and_start example_outcome ''a.mod'' ?cs = Inr s"
    by (simp add: load_and_start_def example_outcome_def Let_def)
  then have "reachable (get_frame_info example_frame_info s)"
    by (intro reachable.queried reachable.entered)
  moreover have "get_frame_info example_frame_info s = example_state"
    using s
    by (auto simp: load_and_start_def example_outcome_def get_frame_info_def example_state_def
        example_entry_calls_def example_frame_info_def Let_def)
  ultimately show ?thesis by simp
qed

theorem toggle_twice_witness:
  "reachable example_state \<and> paused example_state = 0
   \<and> paused (fst (handle_event example_outcome (SDL_KEYDOWN SDLK_SPACE) example_state)) = 1
   \<and> paused (fst (handle_event example_outcome (SDL_KEYDOWN SDLK_SPACE)
         (fst (handle_event example_outcome (SDL_KEYDOWN SDLK_SPACE) example_state)))) = 0
   \<and> show_visualizer example_state = 0
   \<and> show_visualizer (fst (handle_event example_outcome (SDL_KEYDOWN SDLK_v) example_state)) = 1
   \<and> show_visualizer (fst (handle_event example_outcome (SDL_KEYDOWN SDLK_v)
         (fst (handle_event example_outcome (SDL_KEYDOWN SDLK_v) example_state)))) = 0"
proof -
  have p: "paused example_state = 0" and v: "show_visualizer example_state = 0"
    by (simp_all add: example_state_def)
  show ?thesis
    using toggle_twice [of example_outcome example_state example_outcome] example_state_reachable
      p v
    by (simp add: c_not_def)
qed

subsection \<open>File drops and the other events\<close>

lemma drop_file_success:
  "drop_succeeds oc \<Longrightarrow>
   drop_file oc path s =
     (s\<lparr>paused := 0, stopped := 0, modfile := strncpy_modfile path, ctx := new_ctx oc,
        mi := new_mi oc, spec_userdata := new_ctx oc,
        calls := calls s @ teardown (ctx s) @
          [SDL_free path, Xmp_create_context,
           Xmp_load_module (new_ctx oc) (strncpy_modfile path),
           Xmp_get_module_info (new_ctx oc), SDL_OpenAudio (new_ctx oc),
           Xmp_start_player (new_ctx oc) 44100 0, SDL_PauseAudio 0]\<rparr>, False)"
  by (auto simp: drop_succeeds_def drop_file_def Let_def)

lemma drop_file_failure:
  "\<not> drop_succeeds oc \<Longrightarrow>
   \<exists>msg c m u cleanup.
     drop_file oc path s =
       (s\<lparr>stopped := 1, done_flag := 1, modfile := strncpy_modfile path, ctx := c,
          mi := m, spec_userdata := u,
          calls := calls s @ teardown (ctx s) @ [SDL_free path, Xmp_create_context] @ cleanup,
          stderr := stderr s @ [msg]\<rparr>, True)"
proof -
  assume f: "\<not> drop_succeeds oc"
  consider (a) "new_ctx oc = None"
    | (b) "new_ctx oc \<noteq> None" "\<not> 0 \<le> load_rc oc"
    | (c) "new_ctx oc \<noteq> None" "0 \<le> load_rc oc" "\<not> 0 \<le> open_rc oc"
    | (d) "new_ctx oc \<noteq> None" "0 \<le> load_rc oc" "0 \<le> open_rc oc" "\<not> 0 \<le> start_rc oc"
    using f unfolding drop_succeeds_def by blast
  then show ?thesis
  proof cases
    case a
    then have "drop_file oc path s =
       (s\<lparr>stopped := 1, done_flag := 1, modfile := strncpy_modfile path, ctx := None,
          mi := mi s, spec_userdata := spec_userdata s,
          calls := calls s @ teardown (ctx s) @ [SDL_free path, Xmp_create_context] @ [],
          stderr := stderr s @ [''Failed to create xmp context'' @ newline]\<rparr>, True)"
      by (auto simp: drop_file_def fail_def Let_def)
    then show ?thesis by blast
  next
    case b
    then have "drop_file oc path s =
       (s\<lparr>stopped := 1, done_flag := 1, modfile := strncpy_modfile path, ctx := new_ctx oc,
          mi := mi s, spec_userdata := spec_userdata s,
          calls := calls s @ teardown (ctx s) @ [SDL_free path, Xmp_create_context] @
            [Xmp_load_module (new_ctx oc) (strncpy_modfile path), Xmp_free_context (new_ctx oc)],
          stderr := stderr s @ [''Failed to load module: '' @ strncpy_modfile path @ newline]\<rparr>, True)"
      by (auto simp: drop_file_def fail_def Let_def)
    then show ?thesis by blast
  next
    case c
    then have "drop_file oc path s =
       (s\<lparr>stopped := 1, done_flag := 1, modfile := strncpy_modfile path, ctx := new_ctx oc,
          mi := new_mi oc, spec_userdata := new_ctx oc,
          calls := calls s @ teardown (ctx s) @ [SDL_free path, Xmp_create_context] @
            [Xmp_load_module (new_ctx oc) (strncpy_modfile path),
             Xmp_get_module_info (new_ctx oc), SDL_OpenAudio (new_ctx oc),
             Xmp_release_module (new_ctx oc), Xmp_free_context (new_ctx oc)],
          stderr := stderr s @ [''SDL_OpenAudio: '' @ audio_error oc @ newline]\<rparr>, True)"
      by (auto simp: drop_file_def fail_def Let_def)
    then show ?thesis by blast
  next
    case d
    then have "drop_file oc path s =
       (s\<lparr>stopped := 1, done_flag := 1, modfile := strncpy_modfile path, ctx := new_ctx oc,
          mi := new_mi oc, spec_userdata := new_ctx oc,
          calls := calls s @ teardown (ctx s) @ [SDL_free path, Xmp_create_context] @
            [Xmp_load_module (new_ctx oc) (strncpy_modfile path),
             Xmp_get_module_info (new_ctx oc), SDL_OpenAudio (new_ctx oc),
             Xmp_start_player (new_ctx oc) 44100 0,
             SDL_CloseAudio, Xmp_release_module (new_ctx oc), Xmp_free_context (new_ctx oc)],
          stderr := stderr s @ [''xmp_start_player failed'' @ newline]\<rparr>, True)"
      by (auto simp: drop_file_def fail_def Let_def)
    then show ?thesis by blast
  qed
qed

lemma drop_file_frame:
  "\<exists>p st d c m u rest er brk.
     drop_file oc path s =
       (s\<lparr>paused := p, stopped := st, done_flag := d, modfile := strncpy_modfile path,
          ctx := c, mi := m, spec_userdata := u,
          calls := calls s @ teardown (ctx s) @ [SDL_free path, Xmp_create_context] @ rest,
          stderr := er\<rparr>, brk)"
proof (cases "drop_succeeds oc")
  case True
  have "drop_file oc path s =
       (s\<lparr>paused := 0, stopped := 0, done_flag := done_flag s, modfile := strncpy_modfile path,
         ctx := new_ctx oc, mi := new_mi oc, spec_userdata := new_ctx oc,
         calls := calls s @ teardown (ctx s) @ [SDL_free path, Xmp_create_context] @
           [Xmp_load_module (new_ctx oc) (strncpy_modfile path),
            Xmp_get_module_info (new_ctx oc), SDL_OpenAudio (new_ctx oc),
            Xmp_start_player (new_ctx oc) 44100 0, SDL_PauseAudio 0],
         stderr := stderr s\<rparr>, False)"
    by (simp add: drop_file_success [OF True])
  then show ?thesis by blast
next
  case False
  from drop_file_failure [OF False, of path s]
  obtain msg c m u cleanup where
    "drop_file oc path s =
       (s\<lparr>stopped := 1, done_flag := 1, modfile := strncpy_modfile path, ctx := c,
          mi := m, spec_userdata := u,
          calls := calls s @ teardown (ctx s) @ [SDL_free path, Xmp_create_context] @ cleanup,
          stderr := stderr s @ [msg]\<rparr>, True)"
    by blast
  then have "drop_file oc path s =
       (s\<lparr>paused := paused s, stopped := 1, done_flag := 1, modfile := strncpy_modfile path,
         ctx := c, mi := m, spec_userdata := u,
         calls := calls s @ teardown (ctx s) @ [SDL_free path, Xmp_create_context] @ cleanup,
         stderr := stderr s @ [msg]\<rparr>, True)"
    by simp
  then show ?thesis by blast
qed













text \<open>
  Claim C5 as stated fails at a file drop: a drop that succeeds while the player is
  paused changes \<open>paused\<close>, and a drop whose load fails changes \<open>stopped\<close> and \<open>done\<close>,
  though the event is neither a key press nor a quit.
\<close>

theorem drop_changes_flags_counterexample:
  "paused (fst (handle_event example_outcome (SDL_KEYDOWN SDLK_SPACE) example_state)) = 1
   \<and> paused (fst (handle_event example_outcome (SDL_DROPFILE ''b.mod'')
         (fst (handle_event example_outcome (SDL_KEYDOWN SDLK_SPACE) example_state)))) = 0
   \<and> stopped example_state = 0 \<and> done_flag example_state = 0
   \<and> stopped (fst (handle_event example_failure (SDL_DROPFILE ''b.mod'') example_state)) = 1
   \<and> done_flag (fst (handle_event example_failure (SDL_DROPFILE ''b.mod'') example_state)) = 1
   \<and> \<not> (\<forall>oc ev s. ev \<noteq> SDL_KEYDOWN SDLK_SPACE \<longrightarrow>
            paused (fst (handle_event oc ev s)) = paused s)"
proof -
  let ?p = "fst (handle_event example_outcome (SDL_KEYDOWN SDLK_SPACE) example_state)"
  have facts:
    "paused ?p = 1"
    "paused (fst (handle_event example_outcome (SDL_DROPFILE ''b.mod'') ?p)) = 0"
    "stopped example_state = 0" "done_flag example_state = 0"
    "stopped (fst (handle_event example_failure (SDL_DROPFILE ''b.mod'') example_state)) = 1"
    "done_flag (fst (handle_event example_failure (SDL_DROPFILE ''b.mod'') example_state)) = 1"
    by (simp_all add: drop_file_def fail_def Let_def example_failure_def example_outcome_def
        example_state_def c_not_def)
  have "\<not> (\<forall>oc ev s. ev \<noteq> SDL_KEYDOWN SDLK_SPACE \<longrightarrow>
            paused (fst (handle_event oc ev s)) = paused s)"
  proof
    assume "\<forall>oc ev s. ev \<noteq> SDL_KEYDOWN SDLK_SPACE \<longrightarrow>
            paused (fst (handle_event oc ev s)) = paused s"
    then have "paused (fst (handle_event example_outcome (SDL_DROPFILE ''b.mod'') ?p)) = paused ?p"
      by blast
    with facts(1,2) show False by simp
  qed
  with facts show ?thesis by blast
qed

text \<open>
  Claim C5, as amended.  A SPACE key press changes \<open>paused\<close> only; an ESCAPE key press
  or a quit changes \<open>stopped\<close> and \<open>done\<close> only; a V key press changes \<open>show_visualizer\<close>
  only; any other key press or event changes nothing.  A file drop changes, at most,
  \<open>paused\<close>, \<open>stopped\<close>, \<open>done\<close>, the file path, the context, the module information, the
  \<open>userdata\<close> of the audio specification, and the calls and messages that go out.
  No event changes the frame information, \<open>last_pattern\<close> or the four colours, and no
  event but a file drop changes the file path, the context, the module information,
  the \<open>userdata\<close>, or makes a call or writes a message.
\<close>

theorem event_handling_frame:
  "handle_event oc (SDL_KEYDOWN SDLK_SPACE) s = (s\<lparr>paused := c_not (paused s)\<rparr>, False)
   \<and> handle_event oc (SDL_KEYDOWN SDLK_ESCAPE) s = (s\<lparr>stopped := 1, done_flag := 1\<rparr>, False)
   \<and> handle_event oc SDL_QUIT s = (s\<lparr>stopped := 1, done_flag := 1\<rparr>, False)
   \<and> handle_event oc (SDL_KEYDOWN SDLK_v) s =
        (s\<lparr>show_visualizer := c_not (show_visualizer s)\<rparr>, False)
   \<and> handle_event oc (SDL_KEYDOWN SDLK_other) s = (s, False)
   \<and> handle_event oc SDL_other_event s = (s, False)
   \<and> (\<exists>p st d mf c m u cs er.
        fst (handle_event oc (SDL_DROPFILE path) s) =
          s\<lparr>paused := p, stopped := st, done_flag := d, modfile := mf, ctx := c, mi := m,
            spec_userdata := u, calls := cs, stderr := er\<rparr>)
   \<and> fi (fst (handle_event oc ev s)) = fi s
   \<and> last_pattern (fst (handle_event oc ev s)) = last_pattern s
   \<and> white (fst (handle_event oc ev s)) = white s
   \<and> blue (fst (handle_event oc ev s)) = blue s
   \<and> yellow (fst (handle_event oc ev s)) = yellow s
   \<and> red (fst (handle_event oc ev s)) = red s
   \<and> ((\<forall>path. ev \<noteq> SDL_DROPFILE path) \<longrightarrow>
        modfile (fst (handle_event oc ev s)) = modfile s
        \<and> ctx (fst (handle_event oc ev s)) = ctx s
        \<and> mi (fst (handle_event oc ev s)) = mi s
        \<and> spec_userdata (fst (handle_event oc ev s)) = spec_userdata s
        \<and> calls (fst (handle_event oc ev s)) = calls s
        \<and> stderr (fst (handle_event oc ev s)) = stderr s)"
proof -
  from drop_file_frame [of oc path s]
  obtain p st d0 c0 m u rest er brk where
    shape: "drop_file oc path s =
       (s\<lparr>paused := p, stopped := st, done_flag := d0, modfile := strncpy_modfile path,
          ctx := c0, mi := m, spec_userdata := u,
          calls := calls s @ teardown (ctx s) @ [SDL_free path, Xmp_create_context] @ rest,
          stderr := er\<rparr>, brk)"
    by blast
  have drop: "\<exists>p st d mf c m u cs er.
        fst (handle_event oc (SDL_DROPFILE path) s) =
          s\<lparr>paused := p, stopped := st, done_flag := d, modfile := mf, ctx := c, mi := m,
            spec_userdata := u, calls := cs, stderr := er\<rparr>"
    unfolding handle_event.simps shape fst_conv by blast
  have same: "fi (fst (handle_event oc ev s)) = fi s
   \<and> last_pattern (fst (handle_event oc ev s)) = last_pattern s
   \<and> white (fst (handle_event oc ev s)) = white s
   \<and> blue (fst (handle_event oc ev s)) = blue s
   \<and> yellow (fst (handle_event oc ev s)) = yellow s
   \<and> red (fst (handle_event oc ev s)) = red s"
  proof (cases "(oc, ev, s)" rule: handle_event.cases)
    case (6 oc' path' s')
    from drop_file_frame [of oc path' s]
    obtain p st d0 c0 m u rest er brk where
      "drop_file oc path' s =
       (s\<lparr>paused := p, stopped := st, done_flag := d0, modfile := strncpy_modfile path',
          ctx := c0, mi := m, spec_userdata := u,
          calls := calls s @ teardown (ctx s) @ [SDL_free path', Xmp_create_context] @ rest,
          stderr := er\<rparr>, brk)"
      by blast
    with 6 show ?thesis by simp
  qed simp_all
  have others: "(\<forall>path. ev \<noteq> SDL_DROPFILE path) \<longrightarrow>
        modfile (fst (handle_event oc ev s)) = modfile s
        \<and> ctx (fst (handle_event oc ev s)) = ctx s
        \<and> mi (fst (handle_event oc ev s)) = mi s
        \<and> spec_userdata (fst (handle_event oc ev s)) = spec_userdata s
        \<and> calls (fst (handle_event oc ev s)) = calls s
        \<and> stderr (fst (handle_event oc ev s)) = stderr s"
    by (cases "(oc, ev, s)" rule: handle_event.cases) simp_all
  show ?thesis using drop same others by simp
qed

theorem event_handling_frame_witness:
  "red (fst (handle_event example_outcome (SDL_DROPFILE ''b.mod'') example_state)) =
     SDL_Color 255 0 0 0
   \<and> mi (fst (handle_event example_outcome SDL_QUIT example_state)) = example_module
   \<and> modfile (fst (handle_event example_outcome (SDL_KEYDOWN SDLK_ESCAPE) example_state)) = ''a.mod''
   \<and> calls (fst (handle_event example_outcome (SDL_KEYDOWN SDLK_v) example_state)) =
       calls example_state
   \<and> stopped (fst (handle_event example_outcome SDL_QUIT example_state)) = 1
   \<and> done_flag (fst (handle_event example_outcome SDL_QUIT example_state)) = 1"
  using event_handling_frame [where oc = example_outcome and s = example_state
          and ev = "SDL_DROPFILE ''b.mod''" and path = "''b.mod''"]
        event_handling_frame [where oc = example_outcome and s = example_state
          and ev = SDL_QUIT and path = "''b.mod''"]
        event_handling_frame [where oc = example_outcome and s = example_state
          and ev = "SDL_KEYDOWN SDLK_ESCAPE" and path = "''b.mod''"]
        event_handling_frame [where oc = example_outcome and s = example_state
          and ev = "SDL_KEYDOWN SDLK_v" and path = "''b.mod''"]
  by (simp add: example_state_def)

subsection \<open>The two displays\<close>

lemma controls_no_bar: "c \<in> set (controls s) \<Longrightarrow> \<not> is_bar c \<and> \<not> is_panel_text c"
  by (auto simp: controls_def is_bar_def is_panel_text_def)

lemma song_fields_panel: "c \<in> set (song_fields s) \<Longrightarrow> \<not> is_bar c \<and> is_panel_text c"
  by (auto simp: song_fields_def is_bar_def is_panel_text_def)

lemma channel_lines_panel:
  assumes "channel_lines s = Inr ls" and "c \<in> set ls"
  shows "\<not> is_bar c \<and> is_panel_text c"
proof -
  from assms obtain ch where "ch \<in> set (channels_upto (info_max_channels (mod_chn (mi s))))"
    and c: "c = Render_text 300 (10 + ch * 15)
            (snprintf_info (''Ch'' @ fmt_02d (ch + 1) @ '': '' @
               projr (note_str (ci_note (fi_channel_info (fi s) (nat ch)))) @ '' Ins:'' @
               fmt_02d (ci_instrument (fi_channel_info (fi s) (nat ch)))))
            (yellow s)"
    by (auto simp: channel_lines_eq)
  then have "ch < 8"
    by (auto simp: channels_upto_def info_max_channels_def split: if_splits)
  then show ?thesis by (simp add: c is_bar_def is_panel_text_def)
qed

lemma draw_bar_no_panel: "c \<in> set (draw_bar s bw ch) \<Longrightarrow> \<not> is_panel_text c"
  by (auto simp: draw_bar_def is_panel_text_def base_y_def bar_max_height_def)

lemma draw_info_total: "\<exists>ls. channel_lines s = Inr ls \<and> draw_info s = Inr (song_fields s @ controls s @ ls)"
  by (simp add: draw_info_def channel_lines_eq)

lemma draw_visualizer_no_panel:
  "draw_visualizer s = Inr cs \<Longrightarrow> c \<in> set cs \<Longrightarrow> \<not> is_panel_text c"
  by (auto simp: draw_visualizer_def split: sum.splits dest: draw_bar_no_panel controls_no_bar)

lemma draw_visualizer_bars:
  "bar_width (mod_chn (mi s)) = Inr bw \<Longrightarrow>
   draw_visualizer s =
     Inr (concat (map (draw_bar s bw) (channels_upto (mod_chn (mi s)))) @ controls s)"
  by (simp add: draw_visualizer_def)

lemma first_bar: "1 \<le> n \<Longrightarrow> 
  SDL_FillRect (Some (bar_rect bw 0 (ci_volume (fi_channel_info (fi s) 0)))) 255 255 0
    \<in> set (concat (map (draw_bar s bw) (channels_upto n)))"
proof -
  assume "1 \<le> n"
  then have "0 \<in> set (channels_upto n)"
    by (auto simp: channels_upto_def image_iff intro!: bexI [of _ 0])
  moreover have "SDL_FillRect (Some (bar_rect bw 0 (ci_volume (fi_channel_info (fi s) 0)))) 255 255 0
    \<in> set (draw_bar s bw 0)"
    by (simp add: draw_bar_def)
  ultimately show ?thesis by auto
qed

text \<open>
  What a frame draws is chosen by \<open>show_visualizer\<close> alone.  When the flag is 0 the
  frame is the cleared screen, the song fields, the control lines and the channel
  lines, and it holds texts of the panel and no bar.  When the flag is not 0 the frame
  is the cleared screen and what the visualizer branch draws, and it holds no text of
  the panel; for a module with at least one channel that is the bars of all channels
  and the control lines.
\<close>

lemma frame_draws_one_display:
  "(show_visualizer s = 0 \<longrightarrow>
      (\<exists>ls. channel_lines s = Inr ls \<and>
         draw_frame s =
           Inr ([SDL_FillRect None 0 0 0] @ (song_fields s @ controls s @ ls) @
                [SDL_UpdateWindowSurface, SDL_Delay 20]))
      \<and> (\<forall>cmds. draw_frame s = Inr cmds \<longrightarrow>
            (\<exists>c \<in> set cmds. is_panel_text c) \<and> \<not> (\<exists>c \<in> set cmds. is_bar c)))
   \<and> (show_visualizer s \<noteq> 0 \<longrightarrow>
      draw_frame s =
        (case draw_visualizer s of
           Inl e \<Rightarrow> Inl e
         | Inr cs \<Rightarrow> Inr ([SDL_FillRect None 0 0 0] @ cs @ [SDL_UpdateWindowSurface, SDL_Delay 20]))
      \<and> (\<forall>cmds. draw_frame s = Inr cmds \<longrightarrow> \<not> (\<exists>c \<in> set cmds. is_panel_text c)))
   \<and> (show_visualizer s \<noteq> 0 \<and> 1 \<le> mod_chn (mi s) \<longrightarrow>
      (\<exists>bw. bar_width (mod_chn (mi s)) = Inr bw \<and>
         draw_frame s =
           Inr ([SDL_FillRect None 0 0 0] @
                (concat (map (draw_bar s bw) (channels_upto (mod_chn (mi s)))) @ controls s) @
                [SDL_UpdateWindowSurface, SDL_Delay 20]))
      \<and> (\<forall>cmds. draw_frame s = Inr cmds \<longrightarrow> (\<exists>c \<in> set cmds. is_bar c)))
   \<and> frame_step f s0 =
       (case draw_frame (get_frame_info (frame_info f) (poll_events (events f) s0)) of
          Inl e \<Rightarrow>
            Inl (e, (get_frame_info (frame_info f) (poll_events (events f) s0))
                   \<lparr>calls := calls (get_frame_info (frame_info f) (poll_events (events f) s0)) @
                              [SDL_FillRect None 0 0 0]\<rparr>)
        | Inr cs \<Rightarrow>
            Inr ((get_frame_info (frame_info f) (poll_events (events f) s0))
                   \<lparr>calls := calls (get_frame_info (frame_info f) (poll_events (events f) s0)) @ cs\<rparr>))"
proof -
  have step: "frame_step f s0 =
       (case draw_frame (get_frame_info (frame_info f) (poll_events (events f) s0)) of
          Inl e \<Rightarrow>
            Inl (e, (get_frame_info (frame_info f) (poll_events (events f) s0))
                   \<lparr>calls := calls (get_frame_info (frame_info f) (poll_events (events f) s0)) @
                              [SDL_FillRect None 0 0 0]\<rparr>)
        | Inr cs \<Rightarrow>
            Inr ((get_frame_info (frame_info f) (poll_events (events f) s0))
                   \<lparr>calls := calls (get_frame_info (frame_info f) (poll_events (events f) s0)) @ cs\<rparr>))"
    by (simp add: frame_step_def Let_def)
  have info: "(\<exists>ls. channel_lines s = Inr ls \<and>
         draw_frame s =
           Inr ([SDL_FillRect None 0 0 0] @ (song_fields s @ controls s @ ls) @
                [SDL_UpdateWindowSurface, SDL_Delay 20]))
      \<and> (\<forall>cmds. draw_frame s = Inr cmds \<longrightarrow>
            (\<exists>c \<in> set cmds. is_panel_text c) \<and> \<not> (\<exists>c \<in> set cmds. is_bar c))"
    if sv: "show_visualizer s = 0"
  proof -
    obtain ls where ls: "channel_lines s = Inr ls" "draw_info s = Inr (song_fields s @ controls s @ ls)"
      using draw_info_total by blast
    have df: "draw_frame s =
           Inr ([SDL_FillRect None 0 0 0] @ (song_fields s @ controls s @ ls) @
                [SDL_UpdateWindowSurface, SDL_Delay 20])"
      by (simp add: draw_frame_def sv c_not_def ls(2))
    have title: "Render_text 10 10 (snprintf_info ''Title:'') (white s) \<in> set (song_fields s)"
      by (simp add: song_fields_def)
    have p: "\<exists>c \<in> set ([SDL_FillRect None 0 0 0] @ (song_fields s @ controls s @ ls) @
                [SDL_UpdateWindowSurface, SDL_Delay 20]). is_panel_text c"
      using title song_fields_panel [OF title] by auto
    have nb: "\<not> is_bar c" if "c \<in> set ([SDL_FillRect None 0 0 0] @ (song_fields s @ controls s @ ls) @
                [SDL_UpdateWindowSurface, SDL_Delay 20])" for c
      using that song_fields_panel [of c s] controls_no_bar [of c s] channel_lines_panel [OF ls(1), of c]
      by (auto simp: is_bar_def)
    show ?thesis using ls(1) df p nb by auto
  qed
  have vis: "draw_frame s =
        (case draw_visualizer s of
           Inl e \<Rightarrow> Inl e
         | Inr cs \<Rightarrow> Inr ([SDL_FillRect None 0 0 0] @ cs @ [SDL_UpdateWindowSurface, SDL_Delay 20]))
      \<and> (\<forall>cmds. draw_frame s = Inr cmds \<longrightarrow> \<not> (\<exists>c \<in> set cmds. is_panel_text c))"
    if sv: "show_visualizer s \<noteq> 0"
  proof -
    have df: "draw_frame s =
        (case draw_visualizer s of
           Inl e \<Rightarrow> Inl e
         | Inr cs \<Rightarrow> Inr ([SDL_FillRect None 0 0 0] @ cs @ [SDL_UpdateWindowSurface, SDL_Delay 20]))"
      by (simp add: draw_frame_def sv c_not_def)
    have "\<not> is_panel_text c" if "draw_frame s = Inr cmds" "c \<in> set cmds" for cmds c
    proof (cases "draw_visualizer s")
      case (Inl e)
      with that df show ?thesis by simp
    next
      case (Inr cs)
      with that df have "c \<in> set cs \<or> c \<in> {SDL_FillRect None 0 0 0, SDL_UpdateWindowSurface, SDL_Delay 20}"
        by auto
      then show ?thesis
        using draw_visualizer_no_panel [OF Inr, of c] by (auto simp: is_panel_text_def)
    qed
    then show ?thesis using df by blast
  qed
  have bars: "(\<exists>bw. bar_width (mod_chn (mi s)) = Inr bw \<and>
         draw_frame s =
           Inr ([SDL_FillRect None 0 0 0] @
                (concat (map (draw_bar s bw) (channels_upto (mod_chn (mi s)))) @ controls s) @
                [SDL_UpdateWindowSurface, SDL_Delay 20]))
      \<and> (\<forall>cmds. draw_frame s = Inr cmds \<longrightarrow> (\<exists>c \<in> set cmds. is_bar c))"
    if sv: "show_visualizer s \<noteq> 0" and chn: "1 \<le> mod_chn (mi s)"
  proof -
    obtain bw where bw: "bar_width (mod_chn (mi s)) = Inr bw"
      using bar_width_clamped [of "mod_chn (mi s)"] chn by auto
    have df: "draw_frame s =
           Inr ([SDL_FillRect None 0 0 0] @
                (concat (map (draw_bar s bw) (channels_upto (mod_chn (mi s)))) @ controls s) @
                [SDL_UpdateWindowSurface, SDL_Delay 20])"
      by (simp add: draw_frame_def sv c_not_def draw_visualizer_bars [OF bw])
    have "is_bar (SDL_FillRect (Some (bar_rect bw 0 (ci_volume (fi_channel_info (fi s) 0)))) 255 255 0)"
      by (simp add: is_bar_def)
    then have "\<exists>c \<in> set ([SDL_FillRect None 0 0 0] @
                (concat (map (draw_bar s bw) (channels_upto (mod_chn (mi s)))) @ controls s) @
                [SDL_UpdateWindowSurface, SDL_Delay 20]). is_bar c"
      using first_bar [OF chn, of bw s] by (metis Un_iff set_append)
    then show ?thesis using bw df by auto
  qed
  show ?thesis using info vis bars step by blast
qed

lemma frame_draws_one_display_example:
  "show_visualizer example_state = 0
   \<and> (\<exists>cmds. draw_frame example_state = Inr cmds
         \<and> (\<exists>c \<in> set cmds. is_panel_text c) \<and> \<not> (\<exists>c \<in> set cmds. is_bar c))
   \<and> show_visualizer example_visualizer_state = 1
   \<and> mod_chn (mi example_visualizer_state) = 2
   \<and> (\<exists>cmds. draw_frame example_visualizer_state = Inr cmds
         \<and> (\<exists>c \<in> set cmds. is_bar c) \<and> \<not> (\<exists>c \<in> set cmds. is_panel_text c))"
proof -
  have a: "show_visualizer example_state = 0"
    and b: "show_visualizer example_visualizer_state = 1"
    and c: "mod_chn (mi example_visualizer_state) = 2"
    by (simp_all add: example_state_def example_visualizer_state_def example_module_def)
  from frame_draws_one_display [where s = example_state and s0 = example_state
         and f = "\<lparr>events = [], frame_info = example_frame_info\<rparr>"] a
  have "\<exists>cmds. draw_frame example_state = Inr cmds
         \<and> (\<exists>c \<in> set cmds. is_panel_text c) \<and> \<not> (\<exists>c \<in> set cmds. is_bar c)"
    by blast
  moreover have "\<exists>cmds. draw_frame example_visualizer_state = Inr cmds
         \<and> (\<exists>c \<in> set cmds. is_bar c) \<and> \<not> (\<exists>c \<in> set cmds. is_panel_text c)"
  proof -
    note t = frame_draws_one_display [where s = example_visualizer_state and s0 = example_state
         and f = "\<lparr>events = [], frame_info = example_frame_info\<rparr>"]
    have on: "show_visualizer example_visualizer_state \<noteq> 0"
      and chn: "1 \<le> mod_chn (mi example_visualizer_state)"
      using b c by simp_all
    from t on have np: "\<forall>cmds. draw_frame example_visualizer_state = Inr cmds \<longrightarrow>
        \<not> (\<exists>c \<in> set cmds. is_panel_text c)"
      by blast
    from t on chn obtain cmds where d: "draw_frame example_visualizer_state = Inr cmds"
      by blast
    from t on chn have "\<forall>cmds. draw_frame example_visualizer_state = Inr cmds \<longrightarrow>
        (\<exists>c \<in> set cmds. is_bar c)"
      by blast
    with d np show ?thesis by blast
  qed
  ultimately show ?thesis using a b c by blast
qed

subsection \<open>Start-up\<close>

lemma wait_loop_ignored:
  "\<forall>r \<in> set pre. ignored r \<Longrightarrow>
   wait_loop (pre @ rest) mf cs = wait_loop rest mf (cs @ replicate (length pre) SDL_WaitEvent)"
proof (induction pre arbitrary: cs)
  case Nil
  then show ?case by simp
next
  case (Cons r pre)
  then have r: "ignored r" and pre: "\<forall>r \<in> set pre. ignored r" by simp_all
  from r consider k where "r = Some (SDL_KEYDOWN k)" | "r = Some SDL_other_event"
    by (auto simp: ignored_def split: option.splits event.splits)
  then show ?case
    using Cons.IH [OF pre, of "cs @ [SDL_WaitEvent]"]
    by cases (simp_all add: replicate_append_same)
qed

lemma startup_loop_cases:
  assumes "\<forall>r \<in> set pre. ignored r"
  shows "startup_loop pre mf = Wait_blocked (drop_prompt @ replicate (Suc (length pre)) SDL_WaitEvent)"
    and "startup_loop (pre @ Some SDL_QUIT # post) mf =
           Wait_quit (drop_prompt @ replicate (Suc (length pre)) SDL_WaitEvent)"
    and "startup_loop (pre @ Some (SDL_DROPFILE path) # post) mf =
           Wait_proceed (take 1023 path) 1
             (drop_prompt @ replicate (Suc (length pre)) SDL_WaitEvent @ [SDL_free path])"
    and "mf \<noteq> [] \<Longrightarrow> startup_loop (pre @ None # post) mf =
           Wait_proceed mf 0 (drop_prompt @ replicate (Suc (length pre)) SDL_WaitEvent)"
  using wait_loop_ignored [OF assms, of "[]" mf drop_prompt]
    wait_loop_ignored [OF assms, of "Some SDL_QUIT # post" mf drop_prompt]
    wait_loop_ignored [OF assms, of "Some (SDL_DROPFILE path) # post" mf drop_prompt]
    wait_loop_ignored [OF assms, of "None # post" mf drop_prompt]
  by (simp_all add: startup_loop_def strncpy_modfile_def replicate_append_same)


lemma main_after_init:
  "init_succeeds e \<Longrightarrow>
   main e =
     (case startup_loop (wait_results e) (argv_modfile (argv e)) of
        Wait_quit cs \<Rightarrow>
          Exited 0
            (init_calls @ cs @
             [TTF_CloseFont, TTF_Quit, SDL_DestroyRenderer, SDL_DestroyWindow, SDL_Quit]) []
      | Wait_blocked cs \<Rightarrow> Running (init_calls @ cs) []
      | Wait_proceed mf file_loaded cs \<Rightarrow>
          (case load_and_start (first_load e) mf (init_calls @ cs) of
             Inl r \<Rightarrow> r
           | Inr s \<Rightarrow> run_loop (frames e) s))"
  by (auto simp: init_succeeds_def main_def Let_def)

text \<open>
  Claim C8 as stated fails when \<open>SDL_WaitEvent\<close> returns 0: with a path on the command
  line and no event received at all, the waiting loop is left, and the file of the
  command line is loaded and its playback started.
\<close>

theorem argv_file_played_counterexample:
  "argv example_env = [''play_mod'', ''a.mod''] \<and> wait_results example_env = [None]
   \<and> main example_env =
       Running
         (init_calls @ drop_prompt @
          [SDL_WaitEvent, Xmp_create_context, Xmp_load_module (Some 1) ''a.mod'',
           Xmp_get_module_info (Some 1), SDL_OpenAudio (Some 1),
           Xmp_start_player (Some 1) 44100 0, SDL_PauseAudio 0])
         []"
proof -
  have i: "init_succeeds example_env"
    by (simp add: init_succeeds_def example_env_def)
  have m: "argv_modfile (argv example_env) = ''a.mod''"
    by (simp add: argv_modfile_def example_env_def strncpy_modfile_def)
  have w: "startup_loop (wait_results example_env) ''a.mod'' =
             Wait_proceed ''a.mod'' 0 (drop_prompt @ [SDL_WaitEvent])"
    by (simp add: startup_loop_def example_env_def)
  have l: "first_load example_env = example_outcome"
    by (simp add: example_env_def)
  show ?thesis
    unfolding main_after_init [OF i] m w l
    by (simp add: load_and_start_def example_outcome_def Let_def run_loop_def example_env_def)
qed

text \<open>
  Claim C8, as amended.  Let every result of \<open>SDL_WaitEvent\<close> in \<open>pre\<close> be an event that
  is neither a quit nor a file drop.  Then, whatever path the command line gave:
  after \<open>pre\<close> alone the waiting loop is still blocked in \<open>SDL_WaitEvent\<close>; a quit after
  \<open>pre\<close> ends it by \<open>return 0\<close>; a file drop after \<open>pre\<close> leaves it with the first 1023
  characters of the dropped path as the file path.  Only when \<open>SDL_WaitEvent\<close> returns 0
  after \<open>pre\<close> and the path of the command line is not empty is the loop left with that
  path.  For the whole program, once initialisation has succeeded: after \<open>pre\<close> alone it
  is still running and has called nothing but the initialisation, the prompt and
  \<open>SDL_WaitEvent\<close>, so no file is loaded or played; after a quit it has exited with
  status 0, again without loading; after a drop it loads the dropped file; and after a
  0 of \<open>SDL_WaitEvent\<close> with a path on the command line it loads that path.
\<close>

theorem startup_waits_for_drop_or_quit:
  "(\<forall>r \<in> set pre. ignored r) \<longrightarrow>
     startup_loop pre mf =
       Wait_blocked (drop_prompt @ replicate (Suc (length pre)) SDL_WaitEvent)
     \<and> startup_loop (pre @ Some SDL_QUIT # post) mf =
         Wait_quit (drop_prompt @ replicate (Suc (length pre)) SDL_WaitEvent)
     \<and> startup_loop (pre @ Some (SDL_DROPFILE path) # post) mf =
         Wait_proceed (take 1023 path) 1
           (drop_prompt @ replicate (Suc (length pre)) SDL_WaitEvent @ [SDL_free path])
     \<and> (mf \<noteq> [] \<longrightarrow>
          startup_loop (pre @ None # post) mf =
            Wait_proceed mf 0 (drop_prompt @ replicate (Suc (length pre)) SDL_WaitEvent))
     \<and> (init_succeeds e \<and> wait_results e = pre \<longrightarrow>
          main e =
            Running (init_calls @ drop_prompt @ replicate (Suc (length pre)) SDL_WaitEvent) [])
     \<and> (init_succeeds e \<and> wait_results e = pre @ Some SDL_QUIT # post \<longrightarrow>
          main e =
            Exited 0
              (init_calls @ (drop_prompt @ replicate (Suc (length pre)) SDL_WaitEvent) @
               [TTF_CloseFont, TTF_Quit, SDL_DestroyRenderer, SDL_DestroyWindow, SDL_Quit]) [])
     \<and> (init_succeeds e \<and> wait_results e = pre @ Some (SDL_DROPFILE path) # post \<longrightarrow>
          main e =
            (case load_and_start (first_load e) (take 1023 path)
                    (init_calls @ drop_prompt @ replicate (Suc (length pre)) SDL_WaitEvent @
                     [SDL_free path]) of
               Inl r \<Rightarrow> r
             | Inr s \<Rightarrow> run_loop (frames e) s))
     \<and> (init_succeeds e \<and> wait_results e = pre @ None # post \<and> argv_modfile (argv e) \<noteq> [] \<longrightarrow>
          main e =
            (case load_and_start (first_load e) (argv_modfile (argv e))
                    (init_calls @ drop_prompt @ replicate (Suc (length pre)) SDL_WaitEvent) of
               Inl r \<Rightarrow> r
             | Inr s \<Rightarrow> run_loop (frames e) s))"
proof
  assume pre: "\<forall>r \<in> set pre. ignored r"
  note c = startup_loop_cases [OF pre]
  have 1: "init_succeeds e \<and> wait_results e = pre \<longrightarrow>
          main e =
            Running (init_calls @ drop_prompt @ replicate (Suc (length pre)) SDL_WaitEvent) []"
    using c(1) [of "argv_modfile (argv e)"] by (auto simp: main_after_init)
  have 2: "init_succeeds e \<and> wait_results e = pre @ Some SDL_QUIT # post \<longrightarrow>
          main e =
            Exited 0
              (init_calls @ (drop_prompt @ replicate (Suc (length pre)) SDL_WaitEvent) @
               [TTF_CloseFont, TTF_Quit, SDL_DestroyRenderer, SDL_DestroyWindow, SDL_Quit]) []"
    using c(2) [of post "argv_modfile (argv e)"] by (auto simp: main_after_init)
  have 3: "init_succeeds e \<and> wait_results e = pre @ Some (SDL_DROPFILE path) # post \<longrightarrow>
          main e =
            (case load_and_start (first_load e) (take 1023 path)
                    (init_calls @ drop_prompt @ replicate (Suc (length pre)) SDL_WaitEvent @
                     [SDL_free path]) of
               Inl r \<Rightarrow> r
             | Inr s \<Rightarrow> run_loop (frames e) s)"
    using c(3) [of path post "argv_modfile (argv e)"] by (auto simp: main_after_init)
  have 4: "init_succeeds e \<and> wait_results e = pre @ None # post \<and> argv_modfile (argv e) \<noteq> [] \<longrightarrow>
          main e =
            (case load_and_start (first_load e) (argv_modfile (argv e))
                    (init_calls @ drop_prompt @ replicate (Suc (length pre)) SDL_WaitEvent) of
               Inl r \<Rightarrow> r
             | Inr s \<Rightarrow> run_loop (frames e) s)"
    using c(4) [of "argv_modfile (argv e)" post] by (auto simp: main_after_init)
  show "startup_loop pre mf =
       Wait_blocked (drop_prompt @ replicate (Suc (length pre)) SDL_WaitEvent)
     \<and> startup_loop (pre @ Some SDL_QUIT # post) mf =
         Wait_quit (drop_prompt @ replicate (Suc (length pre)) SDL_WaitEvent)
     \<and> startup_loop (pre @ Some (SDL_DROPFILE path) # post) mf =
         Wait_proceed (take 1023 path) 1
           (drop_prompt @ replicate (Suc (length pre)) SDL_WaitEvent @ [SDL_free path])
     \<and> (mf \<noteq> [] \<longrightarrow>
          startup_loop (pre @ None # post) mf =
            Wait_proceed mf 0 (drop_prompt @ replicate (Suc (length pre)) SDL_WaitEvent))
     \<and> (init_succeeds e \<and> wait_results e = pre \<longrightarrow>
          main e =
            Running (init_calls @ drop_prompt @ replicate (Suc (length pre)) SDL_WaitEvent) [])
     \<and> (init_succeeds e \<and> wait_results e = pre @ Some SDL_QUIT # post \<longrightarrow>
          main e =
            Exited 0
              (init_calls @ (drop_prompt @ replicate (Suc (length pre)) SDL_WaitEvent) @
               [TTF_CloseFont, TTF_Quit, SDL_DestroyRenderer, SDL_DestroyWindow, SDL_Quit]) [])
     \<and> (init_succeeds e \<and> wait_results e = pre @ Some (SDL_DROPFILE path) # post \<longrightarrow>
          main e =
            (case load_and_start (first_load e) (take 1023 path)
                    (init_calls @ drop_prompt @ replicate (Suc (length pre)) SDL_WaitEvent @
                     [SDL_free path]) of
               Inl r \<Rightarrow> r
             | Inr s \<Rightarrow> run_loop (frames e) s))
     \<and> (init_succeeds e \<and> wait_results e = pre @ None # post \<and> argv_modfile (argv e) \<noteq> [] \<longrightarrow>
          main e =
            (case load_and_start (first_load e) (argv_modfile (argv e))
                    (init_calls @ drop_prompt @ replicate (Suc (length pre)) SDL_WaitEvent) of
               Inl r \<Rightarrow> r
             | Inr s \<Rightarrow> run_loop (frames e) s))"
    using c(1) [of mf] c(2) [of post mf] c(3) [of path post mf] c(4) [of mf post] 1 2 3 4
    by blast
qed


theorem startup_waits_for_drop_or_quit_witness:
  "ignored (Some (SDL_KEYDOWN SDLK_SPACE)) \<and> ignored (Some SDL_other_event)
   \<and> startup_loop [Some (SDL_KEYDOWN SDLK_SPACE), Some SDL_other_event] ''a.mod'' =
       Wait_blocked (drop_prompt @ [SDL_WaitEvent, SDL_WaitEvent, SDL_WaitEvent])
   \<and> startup_loop [Some (SDL_KEYDOWN SDLK_SPACE), Some SDL_other_event, Some SDL_QUIT] ''a.mod'' =
       Wait_quit (drop_prompt @ [SDL_WaitEvent, SDL_WaitEvent, SDL_WaitEvent])
   \<and> startup_loop [Some (SDL_KEYDOWN SDLK_SPACE), Some SDL_other_event,
                    Some (SDL_DROPFILE ''b.mod'')] ''a.mod'' =
       Wait_proceed ''b.mod'' 1
         (drop_prompt @ [SDL_WaitEvent, SDL_WaitEvent, SDL_WaitEvent, SDL_free ''b.mod''])
   \<and> startup_loop [Some (SDL_KEYDOWN SDLK_SPACE), Some SDL_other_event, None] ''a.mod'' =
       Wait_proceed ''a.mod'' 0 (drop_prompt @ [SDL_WaitEvent, SDL_WaitEvent, SDL_WaitEvent])
   \<and> main (example_env\<lparr>wait_results := [Some (SDL_KEYDOWN SDLK_SPACE), Some SDL_other_event]\<rparr>) =
       Running (init_calls @ drop_prompt @ [SDL_WaitEvent, SDL_WaitEvent, SDL_WaitEvent]) []
   \<and> main (example_env\<lparr>wait_results :=
              [Some (SDL_KEYDOWN SDLK_SPACE), Some SDL_other_event, Some SDL_QUIT]\<rparr>) =
       Exited 0
         (init_calls @ (drop_prompt @ [SDL_WaitEvent, SDL_WaitEvent, SDL_WaitEvent]) @
          [TTF_CloseFont, TTF_Quit, SDL_DestroyRenderer, SDL_DestroyWindow, SDL_Quit]) []"
proof -
  have ig: "ignored (Some (SDL_KEYDOWN SDLK_SPACE))" "ignored (Some SDL_other_event)"
    by (simp_all add: ignored_def)
  have i: "init_succeeds (example_env\<lparr>wait_results := w\<rparr>)" for w
    by (simp add: init_succeeds_def example_env_def)
  have three: "replicate (Suc (length [Some (SDL_KEYDOWN SDLK_SPACE), Some SDL_other_event]))
      SDL_WaitEvent = [SDL_WaitEvent, SDL_WaitEvent, SDL_WaitEvent]"
    by (simp add: numeral_3_eq_3)
  show ?thesis
    using startup_waits_for_drop_or_quit
            [where pre = "[Some (SDL_KEYDOWN SDLK_SPACE), Some SDL_other_event]"
               and mf = "''a.mod''" and post = "[]" and path = "''b.mod''"
               and e = "example_env\<lparr>wait_results :=
                          [Some (SDL_KEYDOWN SDLK_SPACE), Some SDL_other_event]\<rparr>"]
          startup_waits_for_drop_or_quit
            [where pre = "[Some (SDL_KEYDOWN SDLK_SPACE), Some SDL_other_event]"
               and mf = "''a.mod''" and post = "[]" and path = "''b.mod''"
               and e = "example_env\<lparr>wait_results :=
                          [Some (SDL_KEYDOWN SDLK_SPACE), Some SDL_other_event, Some SDL_QUIT]\<rparr>"]
          ig i
    unfolding three by simp
qed

















subsection \<open>A module without channels\<close>

text \<open>
  Claim C4 at a module whose channel count is 0.  With \<open>show_visualizer\<close> set, the
  visualizer branch divides by the channel count before it draws anything, so the
  frame draws neither display; with the flag clear, the same module is drawn by the
  information panel.  A run that loads such a module and receives a V key press stops
  at this division in its first frame.
\<close>

theorem zero_channel_visualizer_traps:
  "mod_chn (mi example_zero_state) = 0 \<and> show_visualizer example_zero_state = 1
   \<and> draw_frame example_zero_state = Inl DivisionByZero
   \<and> (case draw_frame (example_zero_state\<lparr>show_visualizer := 0\<rparr>) of
         Inr cs \<Rightarrow> True | Inl e \<Rightarrow> False)
   \<and> (case main example_zero_env of
         Trapped e cs errs \<Rightarrow> e = DivisionByZero | _ \<Rightarrow> False)"
proof -
  have a: "mod_chn (mi example_zero_state) = 0" "show_visualizer example_zero_state = 1"
    by (simp_all add: example_zero_state_def example_visualizer_state_def)
  have b: "draw_frame example_zero_state = Inl DivisionByZero"
    by (simp add: draw_frame_def c_not_def draw_visualizer_def bar_width_zero a)
  obtain ls where "draw_info (example_zero_state\<lparr>show_visualizer := 0\<rparr>) =
      Inr (song_fields (example_zero_state\<lparr>show_visualizer := 0\<rparr>) @
           controls (example_zero_state\<lparr>show_visualizer := 0\<rparr>) @ ls)"
    using draw_info_total by blast
  then have c: "case draw_frame (example_zero_state\<lparr>show_visualizer := 0\<rparr>) of
         Inr cs \<Rightarrow> True | Inl e \<Rightarrow> False"
    by (simp add: draw_frame_def c_not_def)
  have i: "init_succeeds example_zero_env"
    by (simp add: init_succeeds_def example_zero_env_def example_drop_env_def example_env_def)
  have w: "startup_loop (wait_results example_zero_env) (argv_modfile (argv example_zero_env)) =
           Wait_proceed ''a.mod'' 1 (drop_prompt @ [SDL_WaitEvent, SDL_free ''a.mod''])"
    by (simp add: startup_loop_def example_zero_env_def example_drop_env_def example_env_def
        strncpy_modfile_def)
  have d: "case main example_zero_env of
         Trapped e cs errs \<Rightarrow> e = DivisionByZero | _ \<Rightarrow> False"
    unfolding main_after_init [OF i] w
    by (simp add: example_zero_env_def example_drop_env_def example_env_def load_and_start_def
        example_outcome_def Let_def run_loop_def frame_step_def get_frame_info_def
        example_frame_info_def draw_frame_def c_not_def draw_visualizer_def bar_width_zero
        example_module_def)
  show ?thesis using a b c d by simp
qed

end
